theory Spec2Isabelle
  imports Complex_Main "HOL-Library.Word"
begin

section \<open>Arrays\<close>

text \<open>
  The notebook \<^verbatim>\<open>lectures/4_segmentation.ipynb\<close> works on two-dimensional NumPy
  arrays: colour images of shape \<open>(H, W, C)\<close> with \<open>uint8\<close> channels (what
  \<^verbatim>\<open>io.imread\<close> gives for a JPEG), label maps of shape \<open>(H, W)\<close> with integer
  entries, and boolean masks of shape \<open>(H, W)\<close>. A grid stores the two leading
  dimensions and one element per grid position, row by row; the element of an
  image is the pixel, the list of its channel values (the trailing axis).
\<close>

record 'a grid =
  nrows :: nat
  ncols :: nat
  rows :: "'a list list"

type_synonym pixel = "8 word list"

definition shape :: "'a grid \<Rightarrow> nat \<times> nat" where
  "shape g = (nrows g, ncols g)"

definition cell :: "'a grid \<Rightarrow> nat \<times> nat \<Rightarrow> 'a" where
  "cell g p = rows g ! fst p ! snd p"

definition wf_grid :: "'a grid \<Rightarrow> bool" where
  "wf_grid g \<longleftrightarrow>
     length (rows g) = nrows g \<and> list_all (\<lambda>row. length row = ncols g) (rows g)"

definition wf_image :: "nat \<Rightarrow> pixel grid \<Rightarrow> bool" where
  "wf_image chans g \<longleftrightarrow>
     wf_grid g \<and> list_all (list_all (\<lambda>p. length p = chans)) (rows g)"

definition in_grid :: "'a grid \<Rightarrow> nat \<times> nat \<Rightarrow> bool" where
  "in_grid g p \<longleftrightarrow> fst p < nrows g \<and> snd p < ncols g"

definition positions :: "'a grid \<Rightarrow> (nat \<times> nat) list" where
  \<comment> \<open>all grid positions in row-major order\<close>
  "positions g = List.product [0..<nrows g] [0..<ncols g]"

datatype error =
    IndexError
  | ValueError
  | NameError
  | LibraryError string
  | ModelLimit

text \<open>
  \<open>IndexError\<close> is NumPy's exception for an index outside an axis,
  \<open>ValueError\<close> the one for the maximum of an empty array, \<open>NameError\<close>
  Python's for a global name that is not bound. \<open>LibraryError\<close> stands for
  an exception raised inside a call to an external library. \<open>ModelLimit\<close>
  marks inputs outside the model (an address that holds no array, or an array
  of another kind than the one the notebook passes there); Python has no
  dangling references.
\<close>

subsection \<open>NumPy primitives used by the notebook's own code\<close>

definition zeros_like :: "pixel grid \<Rightarrow> pixel grid" where
  \<comment> \<open>\<^verbatim>\<open>np.zeros_like(image)\<close>: same shape and dtype, every entry 0\<close>
  "zeros_like g = g\<lparr>rows := map (map (\<lambda>p. replicate (length p) 0)) (rows g)\<rparr>"

definition np_zeros :: "nat \<times> nat \<Rightarrow> bool grid" where
  \<comment> \<open>\<^verbatim>\<open>np.zeros(shape, np.bool)\<close>\<close>
  "np_zeros sh =
     \<lparr>nrows = fst sh, ncols = snd sh,
      rows = replicate (fst sh) (replicate (snd sh) False)\<rparr>"

definition np_copy :: "'a grid \<Rightarrow> 'a grid" where
  \<comment> \<open>\<^verbatim>\<open>a.copy()\<close>: the same contents in a new array (placed by \<open>alloc\<close> below)\<close>
  "np_copy g = g"

definition eq_scalar :: "'a grid \<Rightarrow> 'a \<Rightarrow> bool grid" where
  \<comment> \<open>\<^verbatim>\<open>a == v\<close> for a scalar \<open>v\<close>: the elementwise comparison\<close>
  "eq_scalar g v =
     \<lparr>nrows = nrows g, ncols = ncols g, rows = map (map (\<lambda>x. x = v)) (rows g)\<rparr>"

definition np_unique :: "int grid \<Rightarrow> int list" where
  \<comment> \<open>\<^verbatim>\<open>np.unique(a)\<close>: the sorted distinct entries\<close>
  "np_unique g = sort (remdups (concat (rows g)))"

definition np_nonzero :: "bool grid \<Rightarrow> (int \<times> int) list" where
  \<comment> \<open>\<^verbatim>\<open>np.nonzero(mask)\<close>: the coordinates of the true entries in row-major
      order; NumPy returns the pair of coordinate arrays, here zipped\<close>
  "np_nonzero m =
     map (\<lambda>p. (int (fst p), int (snd p)))
       (filter (cell m) (positions m))"

definition norm_index :: "nat \<Rightarrow> int \<Rightarrow> error + nat" where
  \<comment> \<open>an integer index along an axis of length \<open>n\<close>: negative indices count
      from the end, anything outside \<open>-n \<le> i < n\<close> raises\<close>
  "norm_index n i =
     (if 0 \<le> i \<and> i < int n then Inr (nat i)
      else if - int n \<le> i \<and> i < 0 then Inr (nat (i + int n))
      else Inl IndexError)"

definition norm_coord :: "'a grid \<Rightarrow> int \<times> int \<Rightarrow> error + nat \<times> nat" where
  "norm_coord g p =
     (case norm_index (nrows g) (fst p) of
        Inl e \<Rightarrow> Inl e
      | Inr r \<Rightarrow>
          (case norm_index (ncols g) (snd p) of
             Inl e \<Rightarrow> Inl e
           | Inr c \<Rightarrow> Inr (r, c)))"

fun norm_coords :: "'a grid \<Rightarrow> (int \<times> int) list \<Rightarrow> error + (nat \<times> nat) list" where
  "norm_coords g [] = Inr []"
| "norm_coords g (p # ps) =
     (case norm_coord g p of
        Inl e \<Rightarrow> Inl e
      | Inr q \<Rightarrow>
          (case norm_coords g ps of
             Inl e \<Rightarrow> Inl e
           | Inr qs \<Rightarrow> Inr (q # qs)))"

definition put :: "'a \<Rightarrow> nat \<times> nat \<Rightarrow> 'a grid \<Rightarrow> 'a grid" where
  "put v p g = g\<lparr>rows := (rows g)[fst p := (rows g ! fst p)[snd p := v]]\<rparr>"

definition getitem :: "'a grid \<Rightarrow> (int \<times> int) list \<Rightarrow> error + 'a list" where
  \<comment> \<open>\<^verbatim>\<open>a[indices]\<close> with a tuple of two coordinate arrays: a copy of the
      addressed elements\<close>
  "getitem g idx =
     (case norm_coords g idx of
        Inl e \<Rightarrow> Inl e
      | Inr ps \<Rightarrow> Inr (map (cell g) ps))"

definition setitem :: "'a grid \<Rightarrow> (int \<times> int) list \<Rightarrow> 'a \<Rightarrow> error + 'a grid" where
  \<comment> \<open>\<^verbatim>\<open>a[indices] = v\<close>: the value is broadcast to every addressed element;
      all indices are checked before the first write\<close>
  "setitem g idx v =
     (case norm_coords g idx of
        Inl e \<Rightarrow> Inl e
      | Inr ps \<Rightarrow> Inr (fold (put v) ps g))"

definition np_mean_axis0 :: "pixel list \<Rightarrow> real list" where
  \<comment> \<open>\<^verbatim>\<open>np.mean(a, axis=0)\<close> of an \<open>(N, C)\<close> array of \<open>uint8\<close>: one mean per
      channel. NumPy accumulates in \<open>float64\<close>; a sum of fewer than \<open>2^45\<close>
      bytes is exact there and the correctly rounded quotient has the same
      integer part as the exact one, so the exact mean is used.\<close>
  "np_mean_axis0 ps =
     map (\<lambda>col. (\<Sum>x\<leftarrow>col. real (unat x)) / real (length col)) (transpose ps)"

definition astype_uint8 :: "real \<Rightarrow> 8 word" where
  \<comment> \<open>the cast NumPy applies when a \<open>float64\<close> is stored into a \<open>uint8\<close>
      array: truncation toward zero\<close>
  "astype_uint8 x = word_of_int (if x < 0 then \<lceil>x\<rceil> else \<lfloor>x\<rfloor>)"

section \<open>The heap of arrays\<close>

text \<open>
  Python variables hold references to arrays, and an indexed assignment writes
  into the referenced array. The heap is the list of all arrays allocated so
  far; an address is a position in it, and allocation appends. An array is
  tagged with its kind: a \<open>uint8\<close> image, an integer label map, a \<open>float64\<close>
  image, a boolean mask, and the one-dimensional integer and boolean arrays of
  the notebook's one-dimensional illustration. A \<open>float64\<close> is a real number
  or one of the three special values; rounding is not modelled.
\<close>

datatype float64 = Fin real | PosInf | NegInf | NaN

datatype array =
    U8 "pixel grid"
  | I64 "int grid"
  | F64 "float64 grid"
  | Mask "bool grid"
  | Vec "int list"
  | MaskVec "bool list"

type_synonym addr = nat
type_synonym heap = "array list"

definition alloc :: "heap \<Rightarrow> array \<Rightarrow> heap \<times> addr" where
  "alloc h a = (h @ [a], length h)"

definition image_at :: "heap \<Rightarrow> addr \<Rightarrow> error + pixel grid" where
  "image_at h a =
     (if a < length h then (case h ! a of U8 g \<Rightarrow> Inr g | _ \<Rightarrow> Inl ModelLimit)
      else Inl ModelLimit)"

definition labels_at :: "heap \<Rightarrow> addr \<Rightarrow> error + int grid" where
  "labels_at h a =
     (if a < length h then (case h ! a of I64 g \<Rightarrow> Inr g | _ \<Rightarrow> Inl ModelLimit)
      else Inl ModelLimit)"

section \<open>\<^verbatim>\<open>mean_color\<close>\<close>

text \<open>
  \<^verbatim>\<open>
  def mean_color(image, labels):
      out = np.zeros_like(image)
      for label in np.unique(labels):
          indices = np.nonzero(labels == label)
          out[indices] = np.mean(image[indices], axis=0)
      return out
  \<close>
\<close>

definition mean_color_body :: "heap \<Rightarrow> addr \<Rightarrow> addr \<Rightarrow> addr \<Rightarrow> int \<Rightarrow> error + heap" where
  "mean_color_body h image_ref labels_ref out_ref label =
     (case labels_at h labels_ref of
        Inl e \<Rightarrow> Inl e
      | Inr lab \<Rightarrow>
          let indices = np_nonzero (eq_scalar lab label) in
          (case image_at h image_ref of
             Inl e \<Rightarrow> Inl e
           | Inr img \<Rightarrow>
               (case getitem img indices of
                  Inl e \<Rightarrow> Inl e
                | Inr picked \<Rightarrow>
                    (case image_at h out_ref of
                       Inl e \<Rightarrow> Inl e
                     | Inr cur \<Rightarrow>
                         (case setitem cur indices
                                 (map astype_uint8 (np_mean_axis0 picked)) of
                            Inl e \<Rightarrow> Inl e
                          | Inr res \<Rightarrow> Inr (h[out_ref := U8 res]))))))"

fun mean_color_loop :: "heap \<Rightarrow> addr \<Rightarrow> addr \<Rightarrow> addr \<Rightarrow> int list \<Rightarrow> error + heap" where
  "mean_color_loop h image_ref labels_ref out_ref [] = Inr h"
| "mean_color_loop h image_ref labels_ref out_ref (label # rest) =
     (case mean_color_body h image_ref labels_ref out_ref label of
        Inl e \<Rightarrow> Inl e
      | Inr h' \<Rightarrow> mean_color_loop h' image_ref labels_ref out_ref rest)"

definition mean_color :: "heap \<Rightarrow> addr \<Rightarrow> addr \<Rightarrow> error + heap \<times> addr" where
  "mean_color h image_ref labels_ref =
     (case image_at h image_ref of
        Inl e \<Rightarrow> Inl e
      | Inr img \<Rightarrow>
          let (h1, out_ref) = alloc h (U8 (zeros_like img)) in
          (case labels_at h1 labels_ref of
             Inl e \<Rightarrow> Inl e
           | Inr lab \<Rightarrow>
               (case mean_color_loop h1 image_ref labels_ref out_ref (np_unique lab) of
                  Inl e \<Rightarrow> Inl e
                | Inr h2 \<Rightarrow> Inr (h2, out_ref))))"

subsection \<open>What the result is meant to be\<close>

definition label_class :: "int grid \<Rightarrow> nat \<times> nat \<Rightarrow> (nat \<times> nat) set" where
  \<comment> \<open>the grid positions carrying the same label as position \<open>p\<close>\<close>
  "label_class lab p =
     {q. fst q < nrows lab \<and> snd q < ncols lab \<and> cell lab q = cell lab p}"

definition class_mean :: "pixel grid \<Rightarrow> int grid \<Rightarrow> nat \<times> nat \<Rightarrow> nat \<Rightarrow> real" where
  \<comment> \<open>the mean of channel \<open>k\<close> of the image over the label class of \<open>p\<close>\<close>
  "class_mean img lab p k =
     (\<Sum>q\<in>label_class lab p. real (unat (cell img q ! k))) / real (card (label_class lab p))"

definition class_pixel :: "pixel grid \<Rightarrow> int grid \<Rightarrow> int \<Rightarrow> pixel" where
  \<comment> \<open>the value one pass of the loop stores at the positions labelled \<open>l\<close>\<close>
  "class_pixel img lab l =
     map astype_uint8
       (np_mean_axis0 (map (cell img) (filter (\<lambda>p. cell lab p = l) (positions lab))))"

definition ex_image :: "pixel grid" where
  "ex_image = \<lparr>nrows = 2, ncols = 2,
                rows = [[[10, 20], [30, 41]], [[50, 60], [71, 80]]]\<rparr>"

definition ex_labels :: "int grid" where
  "ex_labels = \<lparr>nrows = 2, ncols = 2, rows = [[0, 1], [1, 0]]\<rparr>"

section \<open>Region filtering\<close>

text \<open>
  \<^verbatim>\<open>
  regions = regionprops(ws)

  ws_updated = ws.copy()
  for region in regions:
      if region.eccentricity > 0.6:
          ws_updated[ws_updated == region.label] = 0
  \<close>
  \<^verbatim>\<open>regionprops\<close> belongs to the external library; the list it returns is a
  parameter here. Of a region descriptor the loop reads two attributes. The
  eccentricity is a \<open>float64\<close>; two such values compare as the reals they
  denote, and no \<open>float64\<close> lies between the literal \<open>0.6\<close> as stored and the
  real \<open>0.6\<close>, so the comparison is the one on reals. Indexing by the boolean
  mask \<^verbatim>\<open>ws_updated == region.label\<close> addresses the positions
  \<^verbatim>\<open>np.nonzero\<close> lists for that mask.
\<close>

record region =
  label :: int
  eccentricity :: real

definition filter_body :: "heap \<Rightarrow> addr \<Rightarrow> region \<Rightarrow> error + heap" where
  "filter_body h ws_updated region =
     (if eccentricity region > 0.6 then
        (case labels_at h ws_updated of
           Inl e \<Rightarrow> Inl e
         | Inr cur \<Rightarrow>
             (case setitem cur (np_nonzero (eq_scalar cur (label region))) 0 of
                Inl e \<Rightarrow> Inl e
              | Inr res \<Rightarrow> Inr (h[ws_updated := I64 res])))
      else Inr h)"

fun filter_loop :: "heap \<Rightarrow> addr \<Rightarrow> region list \<Rightarrow> error + heap" where
  "filter_loop h ws_updated [] = Inr h"
| "filter_loop h ws_updated (region # rest) =
     (case filter_body h ws_updated region of
        Inl e \<Rightarrow> Inl e
      | Inr h' \<Rightarrow> filter_loop h' ws_updated rest)"

definition filter_regions :: "heap \<Rightarrow> addr \<Rightarrow> region list \<Rightarrow> error + heap \<times> addr" where
  "filter_regions h ws regions =
     (case labels_at h ws of
        Inl e \<Rightarrow> Inl e
      | Inr w \<Rightarrow>
          let (h1, ws_updated) = alloc h (I64 (np_copy w)) in
          (case filter_loop h1 ws_updated regions of
             Inl e \<Rightarrow> Inl e
           | Inr h2 \<Rightarrow> Inr (h2, ws_updated)))"

definition elongated :: "region list \<Rightarrow> int \<Rightarrow> bool" where
  \<comment> \<open>some listed region with label \<open>l\<close> has eccentricity above the threshold\<close>
  "elongated regions l \<longleftrightarrow> (\<exists>r\<in>set regions. label r = l \<and> eccentricity r > 0.6)"

definition ex_ws :: "int grid" where
  "ex_ws = \<lparr>nrows = 2, ncols = 3, rows = [[1, 1, 2], [3, 0, 2]]\<rparr>"

definition ex_regions :: "region list" where
  "ex_regions =
     [\<lparr>label = 1, eccentricity = 0.9\<rparr>, \<lparr>label = 2, eccentricity = 0.3\<rparr>,
      \<lparr>label = 3, eccentricity = 0.61\<rparr>]"

section \<open>The seed mask\<close>


section \<open>The notebook as a program\<close>

text \<open>
  The code cells run in order in one Python process. A cell reads and binds
  global names, calls functions of external libraries (scikit-image, SciPy,
  matplotlib, the course's \<^verbatim>\<open>skdemo\<close> helper, IPython magics) and computes on
  arrays with NumPy. The external functions are parameters of the model: a
  record of functions whose results are not constrained, each returning a
  value or raising. A call is a function of its arguments, neither mutates
  them nor keeps state, and its array result is a new array. Every call is
  recorded in the state, with its name and the exception it raised, if any.
  Keyword arguments that only style a plot are left out; names bound by
  \<^verbatim>\<open>for\<close> loops are not tracked as globals.
\<close>

record slic_args =
  n_segments :: int
  compactness :: real
  sigma :: "real option"
  enforce_connectivity :: "bool option"

record library =
  py_import :: "string \<Rightarrow> error + unit"
  magic :: "string \<Rightarrow> error + unit"
  py_print :: "string \<Rightarrow> array list \<Rightarrow> error + unit"
  pyplot :: "string \<Rightarrow> array list \<Rightarrow> error + unit"
  imshow_all :: "array \<Rightarrow> array \<Rightarrow> error + unit"
  imread :: "string \<Rightarrow> error + array"
  slic :: "array \<Rightarrow> slic_args \<Rightarrow> error + array"
  coins :: "error + array"
  sobel :: "array \<Rightarrow> error + array"
  ndi_label :: "array \<Rightarrow> error + array \<times> int"
  watershed :: "array \<Rightarrow> array \<Rightarrow> error + array"
  distance_transform_edt :: "array \<Rightarrow> error + array"
  peak_local_max :: "array \<Rightarrow> error + array"
  regionprops :: "array \<Rightarrow> error + region list"
  label2rgb :: "array \<Rightarrow> array \<Rightarrow> int option \<Rightarrow> error + array"

datatype val = Arr addr | Str string | Float real | IntVal int | Regions "region list"

record state =
  heap :: heap
  vars :: "string \<rightharpoonup> val"
  calls :: "(string \<times> error option) list"

type_synonym 'a nb = "state \<Rightarrow> (error + 'a) \<times> state"

definition nb_return :: "'a \<Rightarrow> 'a nb" where
  "nb_return v s = (Inr v, s)"

definition nb_bind :: "'a nb \<Rightarrow> ('a \<Rightarrow> 'b nb) \<Rightarrow> 'b nb" where
  \<comment> \<open>sequencing: an exception ends the computation where it is raised\<close>
  "nb_bind m f s = (case m s of (Inl e, s') \<Rightarrow> (Inl e, s') | (Inr v, s') \<Rightarrow> f v s')"

definition nb_seq :: "'a nb \<Rightarrow> 'b nb \<Rightarrow> 'b nb" where
  "nb_seq m n = nb_bind m (\<lambda>_. n)"

definition lift :: "error + 'a \<Rightarrow> 'a nb" where
  \<comment> \<open>a computation of the notebook's own that may raise\<close>
  "lift r s = (r, s)"

definition call :: "string \<Rightarrow> error + 'a \<Rightarrow> 'a nb" where
  \<comment> \<open>a call to an external function, given what it returns on these arguments\<close>
  "call name r s =
     (case r of
        Inl e \<Rightarrow> (Inl e, s\<lparr>calls := calls s @ [(name, Some e)]\<rparr>)
      | Inr v \<Rightarrow> (Inr v, s\<lparr>calls := calls s @ [(name, None)]\<rparr>))"

definition get_var :: "string \<Rightarrow> val nb" where
  "get_var x s = (case vars s x of None \<Rightarrow> (Inl NameError, s) | Some v \<Rightarrow> (Inr v, s))"

definition set_var :: "string \<Rightarrow> val \<Rightarrow> unit nb" where
  "set_var x v s = (Inr (), s\<lparr>vars := (vars s)(x \<mapsto> v)\<rparr>)"

definition ref :: "string \<Rightarrow> addr nb" where
  \<comment> \<open>the array a global name refers to\<close>
  "ref x = nb_bind (get_var x) (\<lambda>v. case v of Arr a \<Rightarrow> nb_return a | _ \<Rightarrow> lift (Inl ModelLimit))"

definition deref :: "addr \<Rightarrow> array nb" where
  "deref a s = (if a < length (heap s) then (Inr (heap s ! a), s) else (Inl ModelLimit, s))"

definition arr :: "string \<Rightarrow> array nb" where
  "arr x = nb_bind (ref x) deref"

definition new :: "array \<Rightarrow> addr nb" where
  "new a s = (case alloc (heap s) a of (h, p) \<Rightarrow> (Inr p, s\<lparr>heap := h\<rparr>))"

definition heap_op :: "(heap \<Rightarrow> error + heap \<times> 'a) \<Rightarrow> 'a nb" where
  \<comment> \<open>a function of the notebook that allocates or writes arrays; when it
      raises, what it allocated is unreachable\<close>
  "heap_op f s =
     (case f (heap s) of
        Inl e \<Rightarrow> (Inl e, s)
      | Inr (h, r) \<Rightarrow> (Inr r, s\<lparr>heap := h\<rparr>))"

definition assign :: "string \<Rightarrow> array nb \<Rightarrow> unit nb" where
  \<comment> \<open>\<^verbatim>\<open>x = e\<close> for an expression with an array value\<close>
  "assign x m = nb_bind m (\<lambda>a. nb_bind (new a) (\<lambda>p. set_var x (Arr p)))"

subsection \<open>NumPy expressions of the cells\<close>

definition map_grid :: "('a \<Rightarrow> 'b) \<Rightarrow> 'a grid \<Rightarrow> 'b grid" where
  "map_grid f g = \<lparr>nrows = nrows g, ncols = ncols g, rows = map (map f) (rows g)\<rparr>"

definition np_max :: "int grid \<Rightarrow> error + int" where
  \<comment> \<open>\<^verbatim>\<open>a.max()\<close>; NumPy raises \<^verbatim>\<open>ValueError\<close> on an array without entries\<close>
  "np_max g = (case concat (rows g) of [] \<Rightarrow> Inl ValueError | x # xs \<Rightarrow> Inr (fold max xs x))"

definition true_divide :: "real \<Rightarrow> real \<Rightarrow> float64" where
  \<comment> \<open>\<^verbatim>\<open>/\<close> on \<open>float64\<close>: a zero divisor gives an infinity or NaN (and a
      warning), never an exception\<close>
  "true_divide x y =
     (if y \<noteq> 0 then Fin (x / y)
      else if x > 0 then PosInf else if x < 0 then NegInf else NaN)"

definition normalized :: "array \<Rightarrow> error + array" where
  \<comment> \<open>\<^verbatim>\<open>labels.astype(float) / labels.max()\<close>\<close>
  "normalized a =
     (case a of
        I64 g \<Rightarrow>
          (case np_max g of
             Inl e \<Rightarrow> Inl e
           | Inr m \<Rightarrow> Inr (F64 (map_grid (\<lambda>x. true_divide (real_of_int x) (real_of_int m)) g)))
      | _ \<Rightarrow> Inl ModelLimit)"

fun float_less :: "float64 \<Rightarrow> real \<Rightarrow> bool" where
  "float_less (Fin x) t \<longleftrightarrow> x < t"
| "float_less NegInf t \<longleftrightarrow> True"
| "float_less PosInf t \<longleftrightarrow> False"
| "float_less NaN t \<longleftrightarrow> False"

definition non_edges :: "float64 grid \<Rightarrow> real \<Rightarrow> bool grid" where
  \<comment> \<open>\<^verbatim>\<open>non_edges = (edges < threshold)\<close>\<close>
  "non_edges edges threshold = map_grid (\<lambda>x. float_less x threshold) edges"

definition less_scalar :: "array \<Rightarrow> real \<Rightarrow> error + array" where
  \<comment> \<open>the comparison on an array of any kind the model has\<close>
  "less_scalar a t = (case a of F64 g \<Rightarrow> Inr (Mask (non_edges g t)) | _ \<Rightarrow> Inl ModelLimit)"

definition array_shape :: "array \<Rightarrow> error + nat \<times> nat" where
  \<comment> \<open>\<^verbatim>\<open>a.shape\<close> of a two-dimensional array\<close>
  "array_shape a =
     (case a of
        U8 g \<Rightarrow> Inr (shape g) | I64 g \<Rightarrow> Inr (shape g)
      | F64 g \<Rightarrow> Inr (shape g) | Mask g \<Rightarrow> Inr (shape g)
      | _ \<Rightarrow> Inl ModelLimit)"

definition zeros_bool :: "array \<Rightarrow> error + array" where
  \<comment> \<open>\<^verbatim>\<open>np.zeros(coins.shape, np.bool)\<close>\<close>
  "zeros_bool a = (case array_shape a of Inl e \<Rightarrow> Inl e | Inr sh \<Rightarrow> Inr (Mask (np_zeros sh)))"

fun coord_of_row :: "int list \<Rightarrow> error + int \<times> int" where
  "coord_of_row [r, c] = Inr (r, c)"
| "coord_of_row _ = Inl ModelLimit"

fun coords_of_rows :: "int list list \<Rightarrow> error + (int \<times> int) list" where
  "coords_of_rows [] = Inr []"
| "coords_of_rows (row # rest) =
     (case coord_of_row row of
        Inl e \<Rightarrow> Inl e
      | Inr p \<Rightarrow> (case coords_of_rows rest of Inl e \<Rightarrow> Inl e | Inr ps \<Rightarrow> Inr (p # ps)))"

definition index_arrays :: "array \<Rightarrow> error + (int \<times> int) list" where
  \<comment> \<open>\<^verbatim>\<open>tuple(np.transpose(peaks))\<close> for an \<open>(N, 2)\<close> integer array: the row
      and the column coordinates, here zipped\<close>
  "index_arrays a = (case a of I64 g \<Rightarrow> coords_of_rows (rows g) | _ \<Rightarrow> Inl ModelLimit)"

definition set_true :: "addr \<Rightarrow> (int \<times> int) list \<Rightarrow> heap \<Rightarrow> error + heap \<times> unit" where
  \<comment> \<open>\<^verbatim>\<open>peaks_image[rows, cols] = True\<close>, in place\<close>
  "set_true a idx h =
     (if a < length h then
        (case h ! a of
           Mask m \<Rightarrow>
             (case setitem m idx True of
                Inl e \<Rightarrow> Inl e
              | Inr m' \<Rightarrow> Inr (h[a := Mask m'], ()))
         | _ \<Rightarrow> Inl ModelLimit)
      else Inl ModelLimit)"

definition column :: "nat \<Rightarrow> array \<Rightarrow> error + array" where
  \<comment> \<open>\<^verbatim>\<open>peaks[:, k]\<close>\<close>
  "column k a =
     (case a of
        I64 g \<Rightarrow> (if k < ncols g then Inr (Vec (map (\<lambda>row. row ! k) (rows g))) else Inl IndexError)
      | _ \<Rightarrow> Inl ModelLimit)"

definition eq_scalar_vec :: "array \<Rightarrow> int \<Rightarrow> error + array" where
  \<comment> \<open>\<^verbatim>\<open>y == v\<close> on a one-dimensional integer array\<close>
  "eq_scalar_vec a v = (case a of Vec xs \<Rightarrow> Inr (MaskVec (map (\<lambda>x. x = v) xs)) | _ \<Rightarrow> Inl ModelLimit)"

definition argwhere0 :: "array \<Rightarrow> error + array" where
  \<comment> \<open>\<^verbatim>\<open>np.argwhere(a)[:, 0]\<close> on a one-dimensional integer array: the
      positions of its non-zero entries\<close>
  "argwhere0 a =
     (case a of
        Vec xs \<Rightarrow> Inr (Vec (map int (filter (\<lambda>i. xs ! i \<noteq> 0) [0..<length xs])))
      | _ \<Rightarrow> Inl ModelLimit)"

definition zeros_like_vec :: "array \<Rightarrow> error + array" where
  "zeros_like_vec a = (case a of Vec xs \<Rightarrow> Inr (Vec (map (\<lambda>_. 0) xs)) | _ \<Rightarrow> Inl ModelLimit)"

definition unique_vec :: "array \<Rightarrow> error + int list" where
  "unique_vec a = (case a of Vec xs \<Rightarrow> Inr (sort (remdups xs)) | _ \<Rightarrow> Inl ModelLimit)"

definition masked_butlast :: "array \<Rightarrow> array \<Rightarrow> error + array" where
  \<comment> \<open>\<^verbatim>\<open>a[mask][:-1]\<close>: a boolean index of another length raises\<close>
  "masked_butlast a m =
     (case (a, m) of
        (Vec xs, MaskVec bs) \<Rightarrow>
          (if length bs = length xs
           then Inr (Vec (butlast (map fst (filter snd (zip xs bs)))))
           else Inl IndexError)
      | _ \<Rightarrow> Inl ModelLimit)"

definition diff_positions :: "array \<Rightarrow> error + array" where
  \<comment> \<open>\<^verbatim>\<open>np.argwhere(np.diff(a)) + 0.5\<close>: a \<open>(K, 1)\<close> array of the positions
      where consecutive entries differ, shifted by one half\<close>
  "diff_positions a =
     (case a of
        Vec xs \<Rightarrow>
          (let ks = filter (\<lambda>i. xs ! Suc i - xs ! i \<noteq> 0) [0..<length xs - 1]
           in Inr (F64 \<lparr>nrows = length ks, ncols = 1,
                        rows = map (\<lambda>i. [Fin (real i + 0.5)]) ks\<rparr>))
      | _ \<Rightarrow> Inl ModelLimit)"

subsection \<open>The code cells\<close>

definition cell_future :: "library \<Rightarrow> unit nb" where
  \<comment> \<open>\<^verbatim>\<open>from __future__ import division, print_function; %matplotlib inline\<close>\<close>
  "cell_future L =
     nb_seq (call ''import __future__'' (py_import L ''__future__''))
            (call ''%matplotlib'' (magic L ''matplotlib inline''))"

definition cell_numpy :: "library \<Rightarrow> unit nb" where
  \<comment> \<open>\<^verbatim>\<open>import numpy as np; from matplotlib import pyplot as plt\<close>\<close>
  "cell_numpy L =
     nb_seq (call ''import numpy'' (py_import L ''numpy''))
            (call ''import matplotlib'' (py_import L ''matplotlib''))"

definition cell_imread :: "library \<Rightarrow> unit nb" where
  \<comment> \<open>\<^verbatim>\<open>import skdemo; plt.rcParams['image.cmap'] = 'spectral';
      from skimage import io, segmentation as seg, color;
      url = '../images/spice_1.jpg'; image = io.imread(url)\<close>\<close>
  "cell_imread L =
     nb_seq (call ''import skdemo'' (py_import L ''skdemo''))
    (nb_seq (call ''plt.rcParams'' (pyplot L ''rcParams image.cmap spectral'' []))
    (nb_seq (call ''import skimage'' (py_import L ''skimage''))
    (nb_seq (set_var ''url'' (Str ''../images/spice_1.jpg''))
            (assign ''image''
               (nb_bind (get_var ''url'') (\<lambda>u.
                  case u of
                    Str path \<Rightarrow> call ''io.imread'' (imread L path)
                  | _ \<Rightarrow> lift (Inl ModelLimit)))))))"

definition stmt_slic :: "library \<Rightarrow> slic_args \<Rightarrow> unit nb" where
  \<comment> \<open>clustering: \<^verbatim>\<open>labels = seg.slic(image, ...)\<close>\<close>
  "stmt_slic L args =
     assign ''labels''
       (nb_bind (arr ''image'') (\<lambda>image. call ''seg.slic'' (slic L image args)))"

definition args_first :: slic_args where
  "args_first =
     \<lparr>n_segments = 18, compactness = 10, sigma = None, enforce_connectivity = None\<rparr>"

definition cell_slic_first :: "library \<Rightarrow> unit nb" where
  \<comment> \<open>\<^verbatim>\<open>labels = seg.slic(image, n_segments=18, compactness=10);
      skdemo.imshow_all(image, labels.astype(float) / labels.max());
      print(labels)\<close>\<close>
  "cell_slic_first L =
     nb_seq (stmt_slic L args_first)
    (nb_seq (nb_bind (arr ''image'') (\<lambda>image.
             nb_bind (arr ''labels'') (\<lambda>labels.
             nb_bind (lift (normalized labels)) (\<lambda>scaled.
               call ''skdemo.imshow_all'' (imshow_all L image scaled)))))
            (nb_bind (arr ''labels'') (\<lambda>labels.
               call ''print'' (py_print L [] [labels]))))"

definition call_mean_color :: "addr nb" where
  \<comment> \<open>the call \<^verbatim>\<open>mean_color(image, labels)\<close> on the two globals\<close>
  "call_mean_color =
     nb_bind (ref ''image'') (\<lambda>image_ref.
     nb_bind (ref ''labels'') (\<lambda>labels_ref.
       heap_op (\<lambda>h. mean_color h image_ref labels_ref)))"

definition cell_mean_color :: "library \<Rightarrow> unit nb" where
  \<comment> \<open>\<^verbatim>\<open>def mean_color(image, labels): ...;
      skdemo.imshow_all(image, mean_color(image, labels))\<close>\<close>
  "cell_mean_color L =
     nb_bind (arr ''image'') (\<lambda>image.
     nb_bind call_mean_color (\<lambda>out_ref.
     nb_bind (deref out_ref) (\<lambda>out.
       call ''skdemo.imshow_all'' (imshow_all L image out))))"

definition stmt_label_image :: "unit nb" where
  \<comment> \<open>the labelled output: \<^verbatim>\<open>label_image = mean_color(image, labels)\<close>\<close>
  "stmt_label_image =
     nb_bind call_mean_color (\<lambda>out_ref. set_var ''label_image'' (Arr out_ref))"

definition cell_slic :: "library \<Rightarrow> slic_args \<Rightarrow> unit nb" where
  \<comment> \<open>\<^verbatim>\<open>labels = seg.slic(image, ...); label_image = mean_color(image, labels);
      skdemo.imshow_all(image, label_image)\<close>\<close>
  "cell_slic L args =
     nb_seq (stmt_slic L args)
    (nb_seq stmt_label_image
            (nb_bind (arr ''image'') (\<lambda>image.
             nb_bind (arr ''label_image'') (\<lambda>label_image.
               call ''skdemo.imshow_all'' (imshow_all L image label_image)))))"

definition args_connectivity :: slic_args where
  "args_connectivity =
     \<lparr>n_segments = 18, compactness = 10, sigma = None, enforce_connectivity = Some True\<rparr>"

definition args_sigma :: slic_args where
  "args_sigma =
     \<lparr>n_segments = 18, compactness = 10, sigma = Some 2, enforce_connectivity = Some True\<rparr>"

definition args_segments :: slic_args where
  "args_segments =
     \<lparr>n_segments = 24, compactness = 10, sigma = Some 2, enforce_connectivity = Some True\<rparr>"

definition args_compactness :: slic_args where
  "args_compactness =
     \<lparr>n_segments = 24, compactness = 40, sigma = Some 2, enforce_connectivity = Some True\<rparr>"

definition cell_url2 :: "unit nb" where
  \<comment> \<open>\<^verbatim>\<open>url2 = '../images/spices.jpg'\<close>\<close>
  "cell_url2 = set_var ''url2'' (Str ''../images/spices.jpg'')"

definition cell_imports :: "library \<Rightarrow> unit nb" where
  \<comment> \<open>\<^verbatim>\<open>from skimage import data; from skimage import filters;
      from matplotlib import pyplot as plt, cm\<close>\<close>
  "cell_imports L =
     nb_seq (call ''import skimage'' (py_import L ''skimage''))
    (nb_seq (call ''import skimage'' (py_import L ''skimage''))
            (call ''import matplotlib'' (py_import L ''matplotlib'')))"

definition stmt_sobel :: "library \<Rightarrow> unit nb" where
  \<comment> \<open>edge detection: \<^verbatim>\<open>edges = filters.sobel(coins)\<close>\<close>
  "stmt_sobel L =
     assign ''edges'' (nb_bind (arr ''coins'') (\<lambda>c. call ''filters.sobel'' (sobel L c)))"

definition cell_sobel :: "library \<Rightarrow> unit nb" where
  \<comment> \<open>\<^verbatim>\<open>coins = data.coins(); edges = filters.sobel(coins);
      plt.imshow(edges, cmap='gray')\<close>\<close>
  "cell_sobel L =
     nb_seq (assign ''coins'' (call ''data.coins'' (coins L)))
    (nb_seq (stmt_sobel L)
            (nb_bind (arr ''edges'') (\<lambda>e. call ''plt.imshow'' (pyplot L ''imshow'' [e]))))"

fun bar_loop :: "library \<Rightarrow> int list \<Rightarrow> unit nb" where
  \<comment> \<open>\<^verbatim>\<open>for n, label in enumerate(np.unique(result)):
          mask = (result == label)
          plt.bar(x[mask][:-1], result[mask][:-1], ...)\<close>\<close>
  "bar_loop L [] = nb_return ()"
| "bar_loop L (l # rest) =
     nb_seq
       (nb_bind (arr ''result'') (\<lambda>result.
        nb_bind (lift (eq_scalar_vec result l)) (\<lambda>mask.
        nb_bind (arr ''x'') (\<lambda>x.
        nb_bind (lift (masked_butlast x mask)) (\<lambda>xs.
        nb_bind (lift (masked_butlast result mask)) (\<lambda>ys.
          call ''plt.bar'' (pyplot L ''bar'' [xs, ys])))))))
       (bar_loop L rest)"

definition cell_one_dimensional :: "library \<Rightarrow> unit nb" where
  \<comment> \<open>the one-dimensional watershed illustration and its plot\<close>
  "cell_one_dimensional L =
     nb_seq (call ''import skimage'' (py_import L ''skimage''))
    (nb_seq (call ''import scipy'' (py_import L ''scipy''))
    (nb_seq (assign ''x'' (nb_return (Vec [0, 1, 2, 3, 4, 5, 6, 7, 8, 9, 10, 11])))
    (nb_seq (assign ''y'' (nb_return (Vec [1, 0, 1, 2, 1, 3, 2, 0, 2, 4, 1, 0])))
    (nb_seq (assign ''seeds''
               (nb_bind (arr ''y'') (\<lambda>y.
                nb_bind (lift (eq_scalar_vec y 0)) (\<lambda>zero.
                nb_bind (call ''ndi.label'' (ndi_label L zero)) (\<lambda>r. nb_return (fst r))))))
    (nb_seq (assign ''seed_positions''
               (nb_bind (arr ''seeds'') (\<lambda>seeds. lift (argwhere0 seeds))))
    (nb_seq (nb_bind (arr ''seeds'') (\<lambda>seeds.
               call ''print'' (py_print L ''Seeds:'' [seeds])))
    (nb_seq (nb_bind (arr ''seed_positions'') (\<lambda>p.
               call ''print'' (py_print L ''Seed positions:'' [p])))
    (nb_seq (assign ''result''
               (nb_bind (arr ''y'') (\<lambda>y.
                nb_bind (arr ''seeds'') (\<lambda>seeds.
                  call ''watershed'' (watershed L y seeds)))))
    (nb_seq (call ''plt.figure'' (pyplot L ''figure'' []))
    (nb_seq (nb_bind (arr ''y'') (\<lambda>y. call ''plt.plot'' (pyplot L ''plot'' [y])))
    (nb_seq (nb_bind (arr ''seed_positions'') (\<lambda>p.
             nb_bind (lift (zeros_like_vec p)) (\<lambda>z.
               call ''plt.plot'' (pyplot L ''plot'' [p, z]))))
    (nb_seq (nb_bind (arr ''result'') (\<lambda>result.
             nb_bind (lift (unique_vec result)) (\<lambda>ls. bar_loop L ls)))
    (nb_seq (nb_bind (arr ''result'') (\<lambda>result.
             nb_bind (lift (diff_positions result)) (\<lambda>d.
               call ''plt.vlines'' (pyplot L ''vlines'' [d]))))
    (nb_seq (call ''plt.legend'' (pyplot L ''legend'' []))
    (nb_seq (call ''plt.axis'' (pyplot L ''axis off'' []))
            (call ''plt.ylim'' (pyplot L ''ylim'' [])))))))))))))))))"

definition stmt_distance :: "library \<Rightarrow> unit nb" where
  \<comment> \<open>distance transform:
      \<^verbatim>\<open>distance_from_edge = ndi.distance_transform_edt(non_edges)\<close>\<close>
  "stmt_distance L =
     assign ''distance_from_edge''
       (nb_bind (arr ''non_edges'') (\<lambda>non_edges.
          call ''ndi.distance_transform_edt'' (distance_transform_edt L non_edges)))"

definition cell_distance :: "library \<Rightarrow> unit nb" where
  \<comment> \<open>\<^verbatim>\<open>threshold = 0.4; non_edges = (edges < threshold);
      distance_from_edge = ndi.distance_transform_edt(non_edges);
      plt.imshow(distance_from_edge, cmap='gray')\<close>\<close>
  "cell_distance L =
     nb_seq (set_var ''threshold'' (Float 0.4))
    (nb_seq (assign ''non_edges''
               (nb_bind (arr ''edges'') (\<lambda>edges.
                nb_bind (get_var ''threshold'') (\<lambda>t.
                  case t of
                    Float threshold \<Rightarrow> lift (less_scalar edges threshold)
                  | _ \<Rightarrow> lift (Inl ModelLimit)))))
    (nb_seq (stmt_distance L)
            (nb_bind (arr ''distance_from_edge'') (\<lambda>d.
               call ''plt.imshow'' (pyplot L ''imshow'' [d])))))"

definition stmt_peaks :: "library \<Rightarrow> unit nb" where
  \<comment> \<open>peak finding: \<^verbatim>\<open>peaks = feature.peak_local_max(distance_from_edge)\<close>\<close>
  "stmt_peaks L =
     assign ''peaks''
       (nb_bind (arr ''distance_from_edge'') (\<lambda>d.
          call ''feature.peak_local_max'' (peak_local_max L d)))"

definition cell_peaks :: "library \<Rightarrow> unit nb" where
  \<comment> \<open>\<^verbatim>\<open>peaks = feature.peak_local_max(distance_from_edge);
      print("Peaks shape:", peaks.shape);
      peaks_image = np.zeros(coins.shape, np.bool);
      peaks_image[tuple(np.transpose(peaks))] = True;
      seeds, num_seeds = ndi.label(peaks_image);
      plt.imshow(edges, cmap='gray'); plt.plot(peaks[:, 1], peaks[:, 0], 'ro');
      plt.axis('image')\<close>\<close>
  "cell_peaks L =
     nb_seq (call ''import skimage'' (py_import L ''skimage''))
    (nb_seq (stmt_peaks L)
    (nb_seq (nb_bind (arr ''peaks'') (\<lambda>peaks.
               call ''print'' (py_print L ''Peaks shape:'' [peaks])))
    (nb_seq (assign ''peaks_image''
               (nb_bind (arr ''coins'') (\<lambda>c. lift (zeros_bool c))))
    (nb_seq (nb_bind (ref ''peaks_image'') (\<lambda>peaks_ref.
             nb_bind (arr ''peaks'') (\<lambda>peaks.
             nb_bind (lift (index_arrays peaks)) (\<lambda>idx.
               heap_op (set_true peaks_ref idx)))))
    (nb_seq (nb_bind (arr ''peaks_image'') (\<lambda>m.
             nb_bind (call ''ndi.label'' (ndi_label L m)) (\<lambda>r.
             nb_bind (new (fst r)) (\<lambda>p.
             nb_seq (set_var ''seeds'' (Arr p))
                    (set_var ''num_seeds'' (IntVal (snd r)))))))
    (nb_seq (nb_bind (arr ''edges'') (\<lambda>e. call ''plt.imshow'' (pyplot L ''imshow'' [e])))
    (nb_seq (nb_bind (arr ''peaks'') (\<lambda>peaks.
             nb_bind (lift (column 1 peaks)) (\<lambda>xs.
             nb_bind (arr ''peaks'') (\<lambda>peaks.
             nb_bind (lift (column 0 peaks)) (\<lambda>ys.
               call ''plt.plot'' (pyplot L ''plot'' [xs, ys]))))))
            (call ''plt.axis'' (pyplot L ''axis image'' [])))))))))"

definition stmt_watershed :: "library \<Rightarrow> unit nb" where
  \<comment> \<open>flooding: \<^verbatim>\<open>ws = watershed(edges, seeds)\<close>\<close>
  "stmt_watershed L =
     assign ''ws''
       (nb_bind (arr ''edges'') (\<lambda>edges.
        nb_bind (arr ''seeds'') (\<lambda>seeds.
          call ''watershed'' (watershed L edges seeds))))"

definition cell_watershed :: "library \<Rightarrow> unit nb" where
  \<comment> \<open>\<^verbatim>\<open>ws = watershed(edges, seeds); from skimage import color;
      plt.imshow(color.label2rgb(ws, coins))\<close>\<close>
  "cell_watershed L =
     nb_seq (stmt_watershed L)
    (nb_seq (call ''import skimage'' (py_import L ''skimage''))
            (nb_bind (arr ''ws'') (\<lambda>ws.
             nb_bind (arr ''coins'') (\<lambda>c.
             nb_bind (call ''color.label2rgb'' (label2rgb L ws c None)) (\<lambda>rgb.
               call ''plt.imshow'' (pyplot L ''imshow'' [rgb]))))))"

definition stmt_filter :: "unit nb" where
  \<comment> \<open>region filtering:
      \<^verbatim>\<open>ws_updated = ws.copy(); for region in regions: ...\<close>\<close>
  "stmt_filter =
     nb_bind (ref ''ws'') (\<lambda>ws_ref.
     nb_bind (get_var ''regions'') (\<lambda>v.
       case v of
         Regions rs \<Rightarrow>
           nb_bind (heap_op (\<lambda>h. filter_regions h ws_ref rs)) (\<lambda>p.
             set_var ''ws_updated'' (Arr p))
       | _ \<Rightarrow> lift (Inl ModelLimit)))"

definition cell_regions :: "library \<Rightarrow> unit nb" where
  \<comment> \<open>\<^verbatim>\<open>from skimage.measure import regionprops; regions = regionprops(ws);
      ws_updated = ws.copy(); for region in regions: ...;
      plt.imshow(color.label2rgb(ws_updated, coins, bg_label=0))\<close>\<close>
  "cell_regions L =
     nb_seq (call ''import skimage'' (py_import L ''skimage''))
    (nb_seq (nb_bind (arr ''ws'') (\<lambda>ws.
             nb_bind (call ''regionprops'' (regionprops L ws)) (\<lambda>rs.
               set_var ''regions'' (Regions rs))))
    (nb_seq stmt_filter
            (nb_bind (arr ''ws_updated'') (\<lambda>ws_updated.
             nb_bind (arr ''coins'') (\<lambda>c.
             nb_bind (call ''color.label2rgb'' (label2rgb L ws_updated c (Some 0))) (\<lambda>rgb.
               call ''plt.imshow'' (pyplot L ''imshow'' [rgb])))))))"

definition stmt_regionprops :: "library \<Rightarrow> unit nb" where
  \<comment> \<open>the statements of that cell before the filter:
      \<^verbatim>\<open>from skimage.measure import regionprops; regions = regionprops(ws)\<close>\<close>
  "stmt_regionprops L =
     nb_seq (call ''import skimage'' (py_import L ''skimage''))
            (nb_bind (arr ''ws'') (\<lambda>ws.
             nb_bind (call ''regionprops'' (regionprops L ws)) (\<lambda>rs.
               set_var ''regions'' (Regions rs))))"

definition cell_style :: "library \<Rightarrow> unit nb" where
  \<comment> \<open>\<^verbatim>\<open>%reload_ext load_style; %load_style ../themes/tutorial.css\<close>\<close>
  "cell_style L =
     nb_seq (call ''%reload_ext'' (magic L ''reload_ext load_style''))
            (call ''%load_style'' (magic L ''load_style ../themes/tutorial.css''))"

definition notebook :: "library \<Rightarrow> unit nb list" where
  \<comment> \<open>the code cells in the order of the file; the last one is empty\<close>
  "notebook L =
     [cell_future L, cell_numpy L, cell_imread L, cell_slic_first L, cell_mean_color L,
      cell_slic L args_connectivity, cell_slic L args_sigma, cell_slic L args_segments,
      cell_slic L args_compactness, cell_url2, cell_imports L, cell_sobel L,
      cell_one_dimensional L, cell_distance L, cell_peaks L, cell_watershed L,
      cell_regions L, cell_style L, nb_return ()]"

fun run_cells :: "unit nb list \<Rightarrow> unit nb" where
  \<comment> \<open>running the cells in order; the first exception ends the run\<close>
  "run_cells [] = nb_return ()"
| "run_cells (c # cs) = nb_seq c (run_cells cs)"

definition initial_state :: state where
  "initial_state = \<lparr>heap = [], vars = Map.empty, calls = []\<rparr>"

definition run_notebook :: "library \<Rightarrow> (error + unit) \<times> state" where
  "run_notebook L = run_cells (notebook L) initial_state"

subsection \<open>Exceptions of external calls\<close>

definition succeeded :: "(string \<times> error option) list \<Rightarrow> bool" where
  \<comment> \<open>none of the recorded calls raised\<close>
  "succeeded cs \<longleftrightarrow> list_all (\<lambda>c. snd c = None) cs"

definition ended_by :: "error \<Rightarrow> (string \<times> error option) list \<Rightarrow> bool" where
  \<comment> \<open>the last recorded call raised \<open>e\<close>, the calls before it returned\<close>
  "ended_by e cs \<longleftrightarrow>
     cs \<noteq> [] \<and> snd (last cs) = Some e \<and> succeeded (butlast cs)"

definition uncaught :: "'a nb \<Rightarrow> bool" where
  \<comment> \<open>the computation only adds calls to the record; when it returns, every
      call it made returned; when it raises \<open>e\<close>, either every call it made
      returned (the notebook's own code raised) or the last call it made raised
      \<open>e\<close> and the calls before returned\<close>
  "uncaught m \<longleftrightarrow>
     (\<forall>s. \<exists>post. calls (snd (m s)) = calls s @ post \<and>
        (case fst (m s) of
           Inr v \<Rightarrow> succeeded post
         | Inl e \<Rightarrow> succeeded post \<or> ended_by e post))"

definition failing_library :: library where
  \<comment> \<open>a library for which \<^verbatim>\<open>io.imread\<close> does not find the file\<close>
  "failing_library =
     \<lparr>py_import = (\<lambda>_. Inr ()), magic = (\<lambda>_. Inr ()),
      py_print = (\<lambda>_ _. Inr ()), pyplot = (\<lambda>_ _. Inr ()),
      imshow_all = (\<lambda>_ _. Inr ()),
      imread = (\<lambda>_. Inl (LibraryError ''No such file'')),
      slic = (\<lambda>_ _. Inl (LibraryError ''unused'')),
      coins = Inl (LibraryError ''unused''),
      sobel = (\<lambda>_. Inl (LibraryError ''unused'')),
      ndi_label = (\<lambda>_. Inl (LibraryError ''unused'')),
      watershed = (\<lambda>_ _. Inl (LibraryError ''unused'')),
      distance_transform_edt = (\<lambda>_. Inl (LibraryError ''unused'')),
      peak_local_max = (\<lambda>_. Inl (LibraryError ''unused'')),
      regionprops = (\<lambda>_. Inl (LibraryError ''unused'')),
      label2rgb = (\<lambda>_ _ _. Inl (LibraryError ''unused''))\<rparr>"

subsection \<open>What a global name refers to\<close>

definition array_of :: "state \<Rightarrow> string \<Rightarrow> array option" where
  \<comment> \<open>the array a global name is bound to, if it is bound to one\<close>
  "array_of s x =
     (case vars s x of
        Some (Arr a) \<Rightarrow> (if a < length (heap s) then Some (heap s ! a) else None)
      | _ \<Rightarrow> None)"

definition stable :: "string \<Rightarrow> 'a nb \<Rightarrow> bool" where
  \<comment> \<open>the computation neither rebinds the name nor writes into its array\<close>
  "stable x m \<longleftrightarrow> (\<forall>s v. array_of s x = Some v \<longrightarrow> array_of (snd (m s)) x = Some v)"

definition extends :: "heap \<Rightarrow> heap \<Rightarrow> bool" where
  \<comment> \<open>the second heap has every array of the first, unchanged\<close>
  "extends h h' \<longleftrightarrow> length h \<le> length h' \<and> (\<forall>a<length h. h' ! a = h ! a)"

definition ex_library :: "array \<Rightarrow> library" where
  \<comment> \<open>a library whose \<^verbatim>\<open>slic\<close> returns the given array and whose other
      array functions return their first argument\<close>
  "ex_library lab =
     \<lparr>py_import = (\<lambda>_. Inr ()), magic = (\<lambda>_. Inr ()),
      py_print = (\<lambda>_ _. Inr ()), pyplot = (\<lambda>_ _. Inr ()),
      imshow_all = (\<lambda>_ _. Inr ()),
      imread = (\<lambda>_. Inr (U8 ex_image)),
      slic = (\<lambda>_ _. Inr lab),
      coins = Inr (U8 ex_image),
      sobel = (\<lambda>a. Inr a),
      ndi_label = (\<lambda>a. Inr (a, 0)),
      watershed = (\<lambda>a _. Inr a),
      distance_transform_edt = (\<lambda>a. Inr a),
      peak_local_max = (\<lambda>a. Inr a),
      regionprops = (\<lambda>_. Inr []),
      label2rgb = (\<lambda>a _ _. Inr a)\<rparr>"

definition ex_state :: "int grid \<Rightarrow> state" where
  \<comment> \<open>a state in which \<^verbatim>\<open>image\<close> is bound and \<^verbatim>\<open>labels\<close> holds an earlier
      label map\<close>
  "ex_state old =
     \<lparr>heap = [U8 ex_image, I64 old],
      vars = [''image'' \<mapsto> Arr 0, ''labels'' \<mapsto> Arr 1],
      calls = []\<rparr>"

subsection \<open>A run in which every call returns\<close>

text \<open>
  A library under which no call raises, with small arrays for the spice image,
  the coins image and the results of the array functions. The lists below are
  the arrays, the assignments and the calls of the run of all cells under this
  library; that the run produces exactly them is proved cell by cell further
  down. A state of that run is then given by how far into the three lists it
  is.
\<close>

definition ex_coins :: "pixel grid" where
  "ex_coins = \<lparr>nrows = 2, ncols = 3, rows = [[[10], [200], [15]], [[12], [20], [11]]]\<rparr>"

definition ex_response :: "float64 grid" where
  "ex_response =
     \<lparr>nrows = 2, ncols = 3,
      rows = [[Fin 0.5, Fin 0.1, Fin 0.45], [Fin 0.2, Fin 0.05, Fin 0.1]]\<rparr>"

definition ex_distance :: "float64 grid" where
  "ex_distance =
     \<lparr>nrows = 2, ncols = 3, rows = [[Fin 0, Fin 1, Fin 0], [Fin 1, Fin 1.4, Fin 1]]\<rparr>"

definition ex_peaks :: "int grid" where
  \<comment> \<open>one peak, at row 1 and column 1\<close>
  "ex_peaks = \<lparr>nrows = 1, ncols = 2, rows = [[1, 1]]\<rparr>"

definition demo_library :: library where
  \<comment> \<open>every call returns; \<^verbatim>\<open>io.imread\<close> knows one file; \<^verbatim>\<open>ndi.label\<close> gives
      the true entries of a mask the label 1 (right for a mask with one
      component) and numbers the three zero runs of the one-dimensional
      example\<close>
  "demo_library =
     \<lparr>py_import = (\<lambda>_. Inr ()), magic = (\<lambda>_. Inr ()),
      py_print = (\<lambda>_ _. Inr ()), pyplot = (\<lambda>_ _. Inr ()),
      imshow_all = (\<lambda>_ _. Inr ()),
      imread = (\<lambda>path. if path = ''../images/spice_1.jpg'' then Inr (U8 ex_image)
                       else Inl (LibraryError ''No such file'')),
      slic = (\<lambda>_ _. Inr (I64 ex_labels)),
      coins = Inr (U8 ex_coins),
      sobel = (\<lambda>_. Inr (F64 ex_response)),
      ndi_label = (\<lambda>a. case a of
                          Mask m \<Rightarrow> Inr (I64 (map_grid (\<lambda>b. if b then 1 else 0) m), 1)
                        | _ \<Rightarrow> Inr (Vec [0, 1, 0, 0, 0, 0, 0, 2, 0, 0, 0, 3], 3)),
      watershed = (\<lambda>a _. case a of
                            Vec _ \<Rightarrow> Inr (Vec [1, 1, 1, 1, 1, 2, 2, 2, 2, 3, 3, 3])
                          | _ \<Rightarrow> Inr (I64 ex_ws)),
      distance_transform_edt = (\<lambda>_. Inr (F64 ex_distance)),
      peak_local_max = (\<lambda>_. Inr (I64 ex_peaks)),
      regionprops = (\<lambda>_. Inr ex_regions),
      label2rgb = (\<lambda>_ _ _. Inr (U8 ex_image))\<rparr>"

definition ex_mean :: "pixel grid" where
  \<comment> \<open>the mean colours of \<open>ex_image\<close> over the two classes of \<open>ex_labels\<close>\<close>
  "ex_mean = \<lparr>nrows = 2, ncols = 2,
               rows = [[[40, 50], [40, 50]], [[40, 50], [40, 50]]]\<rparr>"

definition ex_scaled :: "float64 grid" where
  "ex_scaled = \<lparr>nrows = 2, ncols = 2, rows = [[Fin 0, Fin 1], [Fin 1, Fin 0]]\<rparr>"

definition ex_non_edges :: "bool grid" where
  "ex_non_edges =
     \<lparr>nrows = 2, ncols = 3, rows = [[False, True, False], [True, True, True]]\<rparr>"

definition ex_mask :: "bool grid" where
  "ex_mask =
     \<lparr>nrows = 2, ncols = 3, rows = [[False, False, False], [False, True, False]]\<rparr>"

definition ex_seeds :: "int grid" where
  "ex_seeds = \<lparr>nrows = 2, ncols = 3, rows = [[0, 0, 0], [0, 1, 0]]\<rparr>"

definition ex_filtered :: "int grid" where
  "ex_filtered = \<lparr>nrows = 2, ncols = 3, rows = [[0, 0, 2], [0, 0, 2]]\<rparr>"

definition demo_heap :: heap where
  \<comment> \<open>the arrays of that run, in the order of their allocation\<close>
  "demo_heap =
     [U8 ex_image, I64 ex_labels, U8 ex_mean, I64 ex_labels, U8 ex_mean, I64 ex_labels,
      U8 ex_mean, I64 ex_labels, U8 ex_mean, I64 ex_labels, U8 ex_mean, U8 ex_coins,
      F64 ex_response, Vec [0, 1, 2, 3, 4, 5, 6, 7, 8, 9, 10, 11],
      Vec [1, 0, 1, 2, 1, 3, 2, 0, 2, 4, 1, 0], Vec [0, 1, 0, 0, 0, 0, 0, 2, 0, 0, 0, 3],
      Vec [1, 7, 11], Vec [1, 1, 1, 1, 1, 2, 2, 2, 2, 3, 3, 3], Mask ex_non_edges,
      F64 ex_distance, I64 ex_peaks, Mask ex_mask, I64 ex_seeds, I64 ex_ws, I64 ex_filtered]"

definition demo_vars :: "(string \<times> val) list" where
  \<comment> \<open>the assignments to global names of that run, in the order they are made\<close>
  "demo_vars =
     [(''url'', Str ''../images/spice_1.jpg''), (''image'', Arr 0), (''labels'', Arr 1),
      (''labels'', Arr 3), (''label_image'', Arr 4), (''labels'', Arr 5),
      (''label_image'', Arr 6), (''labels'', Arr 7), (''label_image'', Arr 8),
      (''labels'', Arr 9), (''label_image'', Arr 10),
      (''url2'', Str ''../images/spices.jpg''), (''coins'', Arr 11), (''edges'', Arr 12),
      (''x'', Arr 13), (''y'', Arr 14), (''seeds'', Arr 15), (''seed_positions'', Arr 16),
      (''result'', Arr 17), (''threshold'', Float 0.4), (''non_edges'', Arr 18),
      (''distance_from_edge'', Arr 19), (''peaks'', Arr 20), (''peaks_image'', Arr 21),
      (''seeds'', Arr 22), (''num_seeds'', IntVal 1), (''ws'', Arr 23),
      (''regions'', Regions ex_regions), (''ws_updated'', Arr 24)]"

definition demo_calls :: "(string \<times> error option) list" where
  \<comment> \<open>the external calls of that run, in the order they are made\<close>
  "demo_calls =
     map (\<lambda>n. (n, None))
       [''import __future__'', ''%matplotlib'', ''import numpy'', ''import matplotlib'',
        ''import skdemo'', ''plt.rcParams'', ''import skimage'', ''io.imread'',
        ''seg.slic'', ''skdemo.imshow_all'', ''print'', ''skdemo.imshow_all'', ''seg.slic'',
        ''skdemo.imshow_all'', ''seg.slic'', ''skdemo.imshow_all'', ''seg.slic'',
        ''skdemo.imshow_all'', ''seg.slic'', ''skdemo.imshow_all'', ''import skimage'',
        ''import skimage'', ''import matplotlib'', ''data.coins'', ''filters.sobel'',
        ''plt.imshow'', ''import skimage'', ''import scipy'', ''ndi.label'', ''print'',
        ''print'', ''watershed'', ''plt.figure'', ''plt.plot'', ''plt.plot'', ''plt.bar'',
        ''plt.bar'', ''plt.bar'', ''plt.vlines'', ''plt.legend'', ''plt.axis'',
        ''plt.ylim'', ''ndi.distance_transform_edt'', ''plt.imshow'', ''import skimage'',
        ''feature.peak_local_max'', ''print'', ''ndi.label'', ''plt.imshow'', ''plt.plot'',
        ''plt.axis'', ''watershed'', ''import skimage'', ''color.label2rgb'',
        ''plt.imshow'', ''import skimage'', ''regionprops'', ''color.label2rgb'',
        ''plt.imshow'', ''%reload_ext'', ''%load_style'']"

definition demo_state :: "nat \<Rightarrow> nat \<Rightarrow> nat \<Rightarrow> state" where
  \<comment> \<open>the state of that run after the first \<open>h\<close> allocations, \<open>v\<close> assignments
      and \<open>c\<close> calls\<close>
  "demo_state h v c =
     \<lparr>heap = take h demo_heap, vars = map_of (rev (take v demo_vars)),
      calls = take c demo_calls\<rparr>"

definition after_cells :: "nat \<Rightarrow> library \<Rightarrow> state" where
  \<comment> \<open>the state in which the first \<open>n\<close> cells leave a run\<close>
  "after_cells n L = snd (run_cells (take n (notebook L)) initial_state)"

subsection \<open>The external calls of a run\<close>

datatype interface =
    Setup           \<comment> \<open>importing a module, configuring IPython or matplotlib\<close>
  | ImageRead       \<comment> \<open>reading an image from a file\<close>
  | Plot            \<comment> \<open>rendering a figure in the notebook\<close>
  | ArrayFunction   \<comment> \<open>a function of scikit-image or SciPy from arrays to arrays\<close>
  | TextOutput      \<comment> \<open>writing text to the output of the cell\<close>
  | StyleSheetRead  \<comment> \<open>reading a style sheet from a file and applying it\<close>

definition interfaces :: "(string \<times> interface) list" where
  \<comment> \<open>the external functions the cells call, by the names under which the
      calls are recorded, and what each of them is\<close>
  "interfaces =
     [(''import __future__'', Setup), (''import numpy'', Setup), (''import matplotlib'', Setup),
      (''import skdemo'', Setup), (''import skimage'', Setup), (''import scipy'', Setup),
      (''%matplotlib'', Setup), (''%reload_ext'', Setup), (''plt.rcParams'', Setup),
      (''io.imread'', ImageRead), (''data.coins'', ImageRead),
      (''skdemo.imshow_all'', Plot), (''plt.imshow'', Plot), (''plt.figure'', Plot),
      (''plt.plot'', Plot), (''plt.bar'', Plot), (''plt.vlines'', Plot),
      (''plt.legend'', Plot), (''plt.axis'', Plot), (''plt.ylim'', Plot),
      (''seg.slic'', ArrayFunction), (''filters.sobel'', ArrayFunction),
      (''ndi.label'', ArrayFunction), (''watershed'', ArrayFunction),
      (''ndi.distance_transform_edt'', ArrayFunction),
      (''feature.peak_local_max'', ArrayFunction), (''regionprops'', ArrayFunction),
      (''color.label2rgb'', ArrayFunction),
      (''print'', TextOutput), (''%load_style'', StyleSheetRead)]"

definition interface_of :: "string \<Rightarrow> interface option" where
  "interface_of n = map_of interfaces n"

definition makes_calls :: "string set \<Rightarrow> 'a nb \<Rightarrow> bool" where
  \<comment> \<open>from every state, the computation only adds calls to the record, and
      every call it adds has one of the given names\<close>
  "makes_calls A m \<longleftrightarrow>
     (\<forall>s. \<exists>post. calls (snd (m s)) = calls s @ post \<and> fst ` set post \<subseteq> A)"

subsection \<open>Steps that are one call to the library\<close>

definition single_call :: "string \<Rightarrow> error + array \<Rightarrow> string \<Rightarrow> unit nb" where
  \<comment> \<open>a step that is one external call and nothing else: the call named \<open>n\<close> is
      recorded with its outcome \<open>r\<close>; when it raised, the step raises and
      nothing else changes; when it returned an array, that array is allocated
      as it is and the name \<open>x\<close> is bound to it\<close>
  "single_call n r x s =
     (case r of
        Inl e \<Rightarrow> (Inl e, s\<lparr>calls := calls s @ [(n, Some e)]\<rparr>)
      | Inr a \<Rightarrow>
          (Inr (), s\<lparr>heap := heap s @ [a],
                     vars := (vars s)(x \<mapsto> Arr (length (heap s))),
                     calls := calls s @ [(n, None)]\<rparr>))"

definition before_label_image :: "library \<Rightarrow> state" where
  \<comment> \<open>the state of a run at the first \<^verbatim>\<open>label_image = mean_color(image, labels)\<close>:
      after the first five cells and the clustering call of the sixth\<close>
  "before_label_image L = snd (stmt_slic L args_connectivity (after_cells 5 L))"

definition before_filter :: "library \<Rightarrow> state" where
  \<comment> \<open>the state of a run at the region filter: after the first sixteen cells
      and the call of \<^verbatim>\<open>regionprops\<close> in the seventeenth\<close>
  "before_filter L = snd (stmt_regionprops L (after_cells 16 L))"

section \<open>The distance map\<close>

text \<open>
  \<^verbatim>\<open>
  threshold = 0.4
  # Euclidean distance transform
  # How far do we ave to travel from a non-edge to find an edge?
  non_edges = (edges < threshold)
  distance_from_edge = ndi.distance_transform_edt(non_edges)
  \<close>
  The comparison is the notebook's (\<open>non_edges\<close> above). The transform is
  SciPy's and its code is not part of the repository.
\<close>

fun float_ge :: "float64 \<Rightarrow> real \<Rightarrow> bool" where
  \<comment> \<open>\<open>x \<ge> t\<close> on \<open>float64\<close>; every comparison with NaN is false\<close>
  "float_ge (Fin x) t \<longleftrightarrow> x \<ge> t"
| "float_ge PosInf t \<longleftrightarrow> True"
| "float_ge NegInf t \<longleftrightarrow> False"
| "float_ge NaN t \<longleftrightarrow> False"

definition euclidean :: "nat \<times> nat \<Rightarrow> nat \<times> nat \<Rightarrow> real" where
  "euclidean p q =
     sqrt ((real (fst p) - real (fst q))\<^sup>2 + (real (snd p) - real (snd q))\<^sup>2)"

definition distance_transform :: "bool grid \<Rightarrow> real grid" where
  \<comment> \<open>Modelled from the spec: \<^verbatim>\<open>ndi.distance_transform_edt\<close>, an external
      function whose code is missing. The glossary has "Distance transform:
      per-pixel distance to the nearest marked boundary pixel"; the marked
      pixels are the false entries of the mask, as the notebook's comment on
      the call says. The value where no pixel is marked is left open.\<close>
  "distance_transform m =
     \<lparr>nrows = nrows m, ncols = ncols m,
      rows = map (\<lambda>r. map (\<lambda>c.
                 Min (set (map (euclidean (r, c)) (filter (\<lambda>q. \<not> cell m q) (positions m)))))
               [0..<ncols m]) [0..<nrows m]\<rparr>"

definition distance_from_edge :: "float64 grid \<Rightarrow> real grid" where
  "distance_from_edge edges = distance_transform (non_edges edges 0.4)"

definition ex_edges :: "float64 grid" where
  "ex_edges = \<lparr>nrows = 1, ncols = 3, rows = [[Fin 0.5, Fin 0.1, Fin 0.2]]\<rparr>"

section \<open>Properties of the array primitives\<close>

lemma set_positions: "set (positions g) = {p. in_grid g p}"
  by (auto simp: positions_def in_grid_def)

lemma distinct_positions: "distinct (positions g)"
  by (simp add: positions_def distinct_product)

lemma norm_index_int: "i < n \<Longrightarrow> norm_index n (int i) = Inr i"
  by (simp add: norm_index_def)

lemma norm_coords_int:
  "\<forall>p\<in>set ps. fst p < nrows g \<and> snd p < ncols g \<Longrightarrow>
   norm_coords g (map (\<lambda>p. (int (fst p), int (snd p))) ps) = Inr ps"
  by (induction ps) (simp_all add: norm_coord_def norm_index_int)

lemma np_nonzero_eq_scalar:
  "np_nonzero (eq_scalar lab l) =
     map (\<lambda>p. (int (fst p), int (snd p))) (filter (\<lambda>p. cell lab p = l) (positions lab))"
  if "wf_grid lab"
proof -
  have "filter (cell (eq_scalar lab l)) (positions lab) = filter (\<lambda>p. cell lab p = l) (positions lab)"
    using that
    by (intro filter_cong refl) (auto simp: positions_def cell_def eq_scalar_def wf_grid_def list_all_iff)
  then show ?thesis
    by (simp add: np_nonzero_def positions_def eq_scalar_def)
qed

lemma nrows_put [simp]: "nrows (put v p g) = nrows g"
  and ncols_put [simp]: "ncols (put v p g) = ncols g"
  by (simp_all add: put_def)

lemma wf_grid_put: "wf_grid g \<Longrightarrow> wf_grid (put v p g)"
  apply (auto simp: wf_grid_def put_def list_all_iff)
  by (metis in_set_conv_nth length_list_update nth_list_update_eq nth_list_update_neq nth_mem length_list_update)

lemma cell_put:
  "wf_grid g \<Longrightarrow> in_grid g p \<Longrightarrow> cell (put v p g) q = (if q = p then v else cell g q)"
  by (cases p; cases q) (auto simp: wf_grid_def put_def cell_def in_grid_def list_all_iff nth_list_update)

lemma fold_put:
  "wf_grid g \<Longrightarrow> \<forall>p\<in>set ps. in_grid g p \<Longrightarrow>
   wf_grid (fold (put v) ps g) \<and> nrows (fold (put v) ps g) = nrows g \<and>
   ncols (fold (put v) ps g) = ncols g \<and>
   (\<forall>q. cell (fold (put v) ps g) q = (if q \<in> set ps then v else cell g q))"
proof (induction ps arbitrary: g)
  case Nil
  then show ?case by simp
next
  case (Cons p ps)
  have 1: "wf_grid (put v p g)" using Cons.prems by (simp add: wf_grid_put)
  have 2: "\<forall>q\<in>set ps. in_grid (put v p g) q" using Cons.prems by (simp add: in_grid_def)
  from Cons.IH [OF 1 2] Cons.prems show ?case
    by (auto simp: cell_put)
qed



lemma norm_coords_nonneg:
  "\<forall>p\<in>set ps. 0 \<le> fst p \<and> fst p < int (nrows g) \<and> 0 \<le> snd p \<and> snd p < int (ncols g) \<Longrightarrow>
   norm_coords g ps = Inr (map (\<lambda>p. (nat (fst p), nat (snd p))) ps)"
  by (induction ps) (simp_all add: norm_coord_def norm_index_def)

section \<open>\<^verbatim>\<open>mean_color\<close> computes the mean of every label class\<close>

lemma wf_image_cell:
  "wf_image c img \<Longrightarrow> in_grid img p \<Longrightarrow> length (cell img p) = c"
proof -
  assume w: "wf_image c img" and p: "in_grid img p"
  have r: "rows img ! fst p \<in> set (rows img)"
    using w p by (simp add: wf_image_def wf_grid_def in_grid_def)
  then have "length (rows img ! fst p) = ncols img"
    using w by (simp add: wf_image_def wf_grid_def list_all_iff)
  then have "rows img ! fst p ! snd p \<in> set (rows img ! fst p)"
    using p by (simp add: in_grid_def)
  with r w show ?thesis
    by (auto simp: wf_image_def list_all_iff cell_def)
qed

lemma set_class_positions:
  "in_grid lab p \<Longrightarrow> set (filter (\<lambda>q. cell lab q = cell lab p) (positions lab)) = label_class lab p"
  by (auto simp: set_positions label_class_def in_grid_def)

lemma np_mean_axis0_rect:
  assumes "ps \<noteq> []" and "\<forall>x\<in>set ps. length x = c"
  shows "np_mean_axis0 ps =
           map (\<lambda>k. (\<Sum>x\<leftarrow>ps. real (unat (x ! k))) / real (length ps)) [0..<c]"
proof -
  have t: "transpose ps = map (\<lambda>i. map (\<lambda>j. ps ! j ! i) [0..<length ps]) [0..<c]"
    using assms by (intro transpose_rectangle) auto
  have m: "map (\<lambda>j. ps ! j ! i) [0..<length ps] = map (\<lambda>x. x ! i) ps" for i
    by (rule nth_equalityI) simp_all
  show ?thesis
    by (simp add: np_mean_axis0_def t m o_def)
qed

lemma class_pixel_mean:
  assumes lab: "wf_grid lab" and img: "wf_image c img"
    and sh: "shape img = shape lab" and p: "in_grid lab p"
  shows "length (class_pixel img lab (cell lab p)) = c"
    and "k < c \<Longrightarrow> class_pixel img lab (cell lab p) ! k = astype_uint8 (class_mean img lab p k)"
proof -
  let ?qs = "filter (\<lambda>q. cell lab q = cell lab p) (positions lab)"
  let ?ps = "map (cell img) ?qs"
  have setqs: "set ?qs = label_class lab p" using p by (rule set_class_positions)
  have dqs: "distinct ?qs" by (simp add: distinct_positions)
  have pin: "p \<in> set ?qs" using p by (simp add: set_positions)
  then have "?qs \<noteq> []" by (metis empty_iff empty_set)
  then have ne: "?ps \<noteq> []" by simp
  have same: "in_grid img q" if "in_grid lab q" for q
    using that sh by (simp add: in_grid_def shape_def)
  have len: "\<forall>x\<in>set ?ps. length x = c"
    using img same by (auto simp: set_positions wf_image_cell)
  have mean: "np_mean_axis0 ?ps =
      map (\<lambda>k. (\<Sum>x\<leftarrow>?ps. real (unat (x ! k))) / real (length ?ps)) [0..<c]"
    using ne len by (rule np_mean_axis0_rect)
  show "length (class_pixel img lab (cell lab p)) = c"
    by (simp only: class_pixel_def mean length_map length_upt minus_nat.diff_0)
  have s: "(\<Sum>x\<leftarrow>?ps. real (unat (x ! k))) = (\<Sum>q\<in>label_class lab p. real (unat (cell img q ! k)))"
  proof -
    have "(\<Sum>x\<leftarrow>?ps. real (unat (x ! k))) = (\<Sum>q\<leftarrow>?qs. real (unat (cell img q ! k)))"
      by (simp add: o_def)
    also have "\<dots> = (\<Sum>q\<in>set ?qs. real (unat (cell img q ! k)))"
      using dqs by (rule sum_list_distinct_conv_sum_set)
    finally show ?thesis by (simp only: setqs)
  qed
  have l: "length ?ps = card (label_class lab p)"
    using distinct_card [OF dqs] setqs by simp
  show "class_pixel img lab (cell lab p) ! k = astype_uint8 (class_mean img lab p k)" if "k < c"
  proof -
    have "class_pixel img lab (cell lab p) ! k =
            astype_uint8 ((\<Sum>x\<leftarrow>?ps. real (unat (x ! k))) / real (length ?ps))"
      unfolding class_pixel_def mean using that by (simp del: of_nat_unat)
    also have "\<dots> = astype_uint8 (class_mean img lab p k)"
      unfolding s l class_mean_def ..
    finally show ?thesis .
  qed
qed

lemma setitem_class:
  assumes cur: "wf_grid cur" and lab: "wf_grid lab" and sh: "shape cur = shape lab"
  shows "\<exists>res. setitem cur (np_nonzero (eq_scalar lab l)) v = Inr res \<and> wf_grid res \<and>
           shape res = shape cur \<and>
           (\<forall>q. in_grid lab q \<longrightarrow> cell res q = (if cell lab q = l then v else cell cur q))"
proof -
  let ?qs = "filter (\<lambda>p. cell lab p = l) (positions lab)"
  have inb: "\<forall>p\<in>set ?qs. in_grid cur p"
    using sh by (simp add: set_positions in_grid_def shape_def)
  then have n: "norm_coords cur (map (\<lambda>p. (int (fst p), int (snd p))) ?qs) = Inr ?qs"
    by (intro norm_coords_int) (simp add: in_grid_def)
  have s: "setitem cur (np_nonzero (eq_scalar lab l)) v = Inr (fold (put v) ?qs cur)"
    by (simp add: setitem_def np_nonzero_eq_scalar [OF lab] n)
  from fold_put [OF cur inb, of v] show ?thesis
    unfolding s by (simp add: shape_def set_positions)
qed

lemma getitem_class:
  assumes lab: "wf_grid lab" and sh: "shape img = shape lab"
  shows "getitem img (np_nonzero (eq_scalar lab l)) =
           Inr (map (cell img) (filter (\<lambda>p. cell lab p = l) (positions lab)))"
proof -
  let ?qs = "filter (\<lambda>p. cell lab p = l) (positions lab)"
  have "\<forall>p\<in>set ?qs. fst p < nrows img \<and> snd p < ncols img"
    using sh by (simp add: set_positions in_grid_def shape_def)
  then have "norm_coords img (map (\<lambda>p. (int (fst p), int (snd p))) ?qs) = Inr ?qs"
    by (rule norm_coords_int)
  then show ?thesis
    by (simp add: getitem_def np_nonzero_eq_scalar [OF lab])
qed

lemma mean_color_body_effect:
  assumes i: "image_at h image_ref = Inr img" and l: "labels_at h labels_ref = Inr lab"
    and o: "image_at h out_ref = Inr cur"
    and wl: "wf_grid lab" and wc: "wf_grid cur"
    and si: "shape img = shape lab" and sc: "shape cur = shape lab"
  shows "\<exists>res. mean_color_body h image_ref labels_ref out_ref lbl = Inr (h[out_ref := U8 res]) \<and>
           wf_grid res \<and> shape res = shape cur \<and>
           (\<forall>q. in_grid lab q \<longrightarrow>
              cell res q = (if cell lab q = lbl then class_pixel img lab lbl else cell cur q))"
proof -
  from setitem_class [OF wc wl sc, of lbl "class_pixel img lab lbl"]
  obtain res where r: "setitem cur (np_nonzero (eq_scalar lab lbl)) (class_pixel img lab lbl) = Inr res"
    and p: "wf_grid res" "shape res = shape cur"
      "\<forall>q. in_grid lab q \<longrightarrow>
              cell res q = (if cell lab q = lbl then class_pixel img lab lbl else cell cur q)"
    by blast
  have "mean_color_body h image_ref labels_ref out_ref lbl = Inr (h[out_ref := U8 res])"
    using r by (simp add: mean_color_body_def i l o getitem_class [OF wl si] class_pixel_def)
  with p show ?thesis by blast
qed

lemma image_at_update:
  "image_at (h[a := U8 g]) b = (if b = a \<and> a < length h then Inr g else image_at h b)"
  by (simp add: image_at_def)

lemma labels_at_update:
  "labels_at (h[a := U8 g]) b = (if b = a \<and> a < length h then Inl ModelLimit else labels_at h b)"
  by (simp add: labels_at_def)

lemma image_at_length: "image_at h a = Inr g \<Longrightarrow> a < length h"
  by (simp add: image_at_def split: if_splits)

lemma mean_color_loop_effect:
  assumes i: "image_at h image_ref = Inr img" and l: "labels_at h labels_ref = Inr lab"
    and o: "image_at h out_ref = Inr cur" and ne: "out_ref \<noteq> image_ref"
    and wl: "wf_grid lab" and wc: "wf_grid cur"
    and si: "shape img = shape lab" and sc: "shape cur = shape lab"
  shows "\<exists>res. mean_color_loop h image_ref labels_ref out_ref ls = Inr (h[out_ref := U8 res]) \<and>
           wf_grid res \<and> shape res = shape cur \<and>
           (\<forall>q. in_grid lab q \<longrightarrow>
              cell res q = (if cell lab q \<in> set ls then class_pixel img lab (cell lab q) else cell cur q))"
  using i l o wc sc
proof (induction ls arbitrary: h cur)
  case Nil
  have "h[out_ref := U8 cur] = h"
    using Nil.prems(3) by (auto simp: image_at_def list_update_same_conv split: if_splits array.splits)
  then have "mean_color_loop h image_ref labels_ref out_ref [] = Inr (h[out_ref := U8 cur])"
    by simp
  with Nil.prems show ?case by auto
next
  case (Cons lbl ls)
  from mean_color_body_effect [OF Cons.prems(1,2,3) wl Cons.prems(4) si Cons.prems(5), of lbl]
  obtain mid where b: "mean_color_body h image_ref labels_ref out_ref lbl = Inr (h[out_ref := U8 mid])"
    and wm: "wf_grid mid" and sm: "shape mid = shape cur"
    and cm: "\<forall>q. in_grid lab q \<longrightarrow>
              cell mid q = (if cell lab q = lbl then class_pixel img lab lbl else cell cur q)"
    by blast
  let ?h = "h[out_ref := U8 mid]"
  have len: "out_ref < length h" using Cons.prems(3) by (rule image_at_length)
  have i': "image_at ?h image_ref = Inr img"
    using Cons.prems(1) ne by (simp add: image_at_update)
  have "labels_ref \<noteq> out_ref"
    using Cons.prems(2,3) by (auto simp: labels_at_def image_at_def split: if_splits array.splits)
  then have l': "labels_at ?h labels_ref = Inr lab"
    using Cons.prems(2) by (simp add: labels_at_update)
  have o': "image_at ?h out_ref = Inr mid"
    using len by (simp add: image_at_update)
  have sm': "shape mid = shape lab" using sm Cons.prems(5) by simp
  from Cons.IH [OF i' l' o' wm sm']
  obtain res where r: "mean_color_loop ?h image_ref labels_ref out_ref ls = Inr (?h[out_ref := U8 res])"
    and wr: "wf_grid res" and sr: "shape res = shape mid"
    and cr: "\<forall>q. in_grid lab q \<longrightarrow>
              cell res q = (if cell lab q \<in> set ls then class_pixel img lab (cell lab q) else cell mid q)"
    by blast
  have "mean_color_loop h image_ref labels_ref out_ref (lbl # ls) = Inr (h[out_ref := U8 res])"
    using b r by simp
  moreover have "shape res = shape cur" using sr sm by simp
  moreover have "\<forall>q. in_grid lab q \<longrightarrow>
              cell res q = (if cell lab q \<in> set (lbl # ls) then class_pixel img lab (cell lab q) else cell cur q)"
    using cr cm by auto
  ultimately show ?case using wr by blast
qed

lemma wf_grid_zeros_like: "wf_grid g \<Longrightarrow> wf_grid (zeros_like g)"
  by (simp add: wf_grid_def zeros_like_def list_all_iff)

lemma shape_zeros_like: "shape (zeros_like g) = shape g"
  by (simp add: shape_def zeros_like_def)

lemma cell_in_rows:
  assumes "wf_grid g" and "in_grid g p"
  shows "cell g p \<in> set (concat (rows g))"
proof -
  have r: "rows g ! fst p \<in> set (rows g)"
    using assms by (simp add: wf_grid_def in_grid_def)
  then have "length (rows g ! fst p) = ncols g"
    using assms by (simp add: wf_grid_def list_all_iff)
  then have "rows g ! fst p ! snd p \<in> set (rows g ! fst p)"
    using assms by (simp add: in_grid_def)
  with r show ?thesis by (auto simp: cell_def)
qed

lemma cell_in_unique: "wf_grid lab \<Longrightarrow> in_grid lab p \<Longrightarrow> cell lab p \<in> set (np_unique lab)"
  using cell_in_rows [of lab p] by (simp add: np_unique_def)

lemma wf_imageI:
  assumes w: "wf_grid g" and c: "\<And>p. in_grid g p \<Longrightarrow> length (cell g p) = c"
  shows "wf_image c g"
proof -
  have "length x = c" if "row \<in> set (rows g)" "x \<in> set row" for row x
  proof -
    from that(1) obtain r where r: "r < length (rows g)" "rows g ! r = row"
      by (auto simp: in_set_conv_nth)
    from that(2) obtain k where k: "k < length row" "row ! k = x"
      by (auto simp: in_set_conv_nth)
    have "length row = ncols g" using w that(1) by (simp add: wf_grid_def list_all_iff)
    then have "in_grid g (r, k)" using r k w by (simp add: in_grid_def wf_grid_def)
    from c [OF this] show ?thesis using r k by (simp add: cell_def)
  qed
  then show ?thesis using w by (auto simp: wf_image_def list_all_iff)
qed

lemma mean_color_result:
  assumes i: "image_at h image_ref = Inr img" and l: "labels_at h labels_ref = Inr lab"
    and wi: "wf_image c img" and wl: "wf_grid lab" and sh: "shape lab = shape img"
  shows "\<exists>res. mean_color h image_ref labels_ref = Inr (h @ [U8 res], length h) \<and>
           image_at (h @ [U8 res]) image_ref = Inr img \<and>
           labels_at (h @ [U8 res]) labels_ref = Inr lab \<and>
           wf_image c res \<and> shape res = shape img \<and>
           (\<forall>p. in_grid img p \<longrightarrow>
              (\<forall>k<c. cell res p ! k = astype_uint8 (class_mean img lab p k)))"
proof -
  let ?h1 = "h @ [U8 (zeros_like img)]"
  let ?out = "length h"
  have li: "image_ref < length h" using i by (rule image_at_length)
  have ll: "labels_ref < length h" using l by (simp add: labels_at_def split: if_splits)
  have i1: "image_at ?h1 image_ref = Inr img"
    using i li by (simp add: image_at_def nth_append)
  have l1: "labels_at ?h1 labels_ref = Inr lab"
    using l ll by (simp add: labels_at_def nth_append)
  have o1: "image_at ?h1 ?out = Inr (zeros_like img)"
    by (simp add: image_at_def)
  have ne: "?out \<noteq> image_ref" using li by simp
  have wz: "wf_grid (zeros_like img)"
    using wi by (simp add: wf_image_def wf_grid_zeros_like)
  have sz: "shape (zeros_like img) = shape lab" using sh by (simp add: shape_zeros_like)
  from mean_color_loop_effect [OF i1 l1 o1 ne wl wz sh [symmetric] sz, of "np_unique lab"]
  obtain res where r: "mean_color_loop ?h1 image_ref labels_ref ?out (np_unique lab) = Inr (?h1[?out := U8 res])"
    and wr: "wf_grid res" and sr: "shape res = shape (zeros_like img)"
    and cr: "\<forall>q. in_grid lab q \<longrightarrow>
              cell res q = (if cell lab q \<in> set (np_unique lab) then class_pixel img lab (cell lab q)
                            else cell (zeros_like img) q)"
    by blast
  have cp: "cell res p = class_pixel img lab (cell lab p)" if "in_grid lab p" for p
    using cr that cell_in_unique [OF wl that] by (cases p) simp
  have same: "in_grid lab p \<longleftrightarrow> in_grid img p" for p
    using sh by (simp add: in_grid_def shape_def)
  have same': "in_grid res p \<longleftrightarrow> in_grid lab p" for p
    using sr sz by (simp add: in_grid_def shape_def)
  have m: "mean_color h image_ref labels_ref = Inr (h @ [U8 res], length h)"
    using r by (simp add: mean_color_def i alloc_def l1)
  have "wf_image c res"
    using wr by (rule wf_imageI) (simp add: same' cp class_pixel_mean(1) [OF wl wi sh [symmetric]])
  moreover have "shape res = shape img" using sr by (simp add: shape_zeros_like)
  moreover have "cell res p ! k = astype_uint8 (class_mean img lab p k)" if "in_grid img p" "k < c" for p k
    using that by (simp add: cp same class_pixel_mean(2) [OF wl wi sh [symmetric]])
  moreover have "image_at (h @ [U8 res]) image_ref = Inr img"
    using i li by (simp add: image_at_def nth_append)
  moreover have "labels_at (h @ [U8 res]) labels_ref = Inr lab"
    using l ll by (simp add: labels_at_def nth_append)
  ultimately show ?thesis using m by blast
qed

text \<open>
  Claim C2. For an image and a label map of the same grid shape,
  \<^verbatim>\<open>mean_color(image, labels)\<close> returns a newly allocated array (the heap grows by
  exactly that array, at an address no earlier array has, so the image and
  the label map are still what they were) of the image's shape and dtype,
  with as many channels per pixel as the image has; channel \<open>k\<close> of the pixel at
  every grid position is the mean of channel \<open>k\<close> of the image over all positions
  carrying the same label, cast to \<open>uint8\<close>.
\<close>

theorem mean_color_correct:
  assumes i: "image_at h image_ref = Inr img" and l: "labels_at h labels_ref = Inr lab"
    and wi: "wf_image c img" and wl: "wf_grid lab" and sh: "shape lab = shape img"
  shows "\<exists>res. mean_color h image_ref labels_ref = Inr (h @ [U8 res], length h) \<and>
           image_at (h @ [U8 res]) image_ref = Inr img \<and>
           labels_at (h @ [U8 res]) labels_ref = Inr lab \<and>
           wf_image c res \<and> shape res = shape img \<and>
           (\<forall>p. in_grid img p \<longrightarrow>
              (\<forall>k<c. cell res p ! k = astype_uint8 (class_mean img lab p k)))"
  using i l wi wl sh by (rule mean_color_result)

theorem mean_color_correct_witness:
  "image_at [U8 ex_image, I64 ex_labels] 0 = Inr ex_image \<and>
   labels_at [U8 ex_image, I64 ex_labels] 1 = Inr ex_labels \<and>
   wf_image 2 ex_image \<and> wf_grid ex_labels \<and> shape ex_labels = shape ex_image \<and>
   in_grid ex_image (0, 1) \<and>
   (\<exists>res. mean_color [U8 ex_image, I64 ex_labels] 0 1 =
            Inr ([U8 ex_image, I64 ex_labels, U8 res], 2) \<and>
          shape res = (2, 2) \<and>
          cell res (0, 1) ! 1 = astype_uint8 (class_mean ex_image ex_labels (0, 1) 1))"
proof -
  have i: "image_at [U8 ex_image, I64 ex_labels] 0 = Inr ex_image"
    by (simp add: image_at_def)
  have l: "labels_at [U8 ex_image, I64 ex_labels] 1 = Inr ex_labels"
    by (simp add: labels_at_def)
  have wi: "wf_image 2 ex_image"
    by (simp add: wf_image_def wf_grid_def ex_image_def)
  have wl: "wf_grid ex_labels"
    by (simp add: wf_grid_def ex_labels_def)
  have sh: "shape ex_labels = shape ex_image"
    by (simp add: shape_def ex_labels_def ex_image_def)
  have g: "in_grid ex_image (0, 1)"
    by (simp add: in_grid_def ex_image_def)
  have s: "shape ex_image = (2, 2)"
    by (simp add: shape_def ex_image_def)
  from mean_color_correct [OF i l wi wl sh] g s
  have "\<exists>res. mean_color [U8 ex_image, I64 ex_labels] 0 1 =
            Inr ([U8 ex_image, I64 ex_labels, U8 res], 2) \<and>
          shape res = (2, 2) \<and>
          cell res (0, 1) ! 1 = astype_uint8 (class_mean ex_image ex_labels (0, 1) 1)"
    by auto
  with i l wi wl sh g show ?thesis by blast
qed

section \<open>The region filter\<close>

lemma labels_at_update_I64:
  "labels_at (h[a := I64 g]) b = (if b = a \<and> a < length h then Inr g else labels_at h b)"
  by (simp add: labels_at_def)

lemma labels_at_length: "labels_at h a = Inr g \<Longrightarrow> a < length h"
  by (simp add: labels_at_def split: if_splits)

lemma filter_body_effect:
  assumes c: "labels_at h ws_updated = Inr cur" and w: "wf_grid cur"
  shows "\<exists>res. filter_body h ws_updated r = Inr (h[ws_updated := I64 res]) \<and>
           wf_grid res \<and> shape res = shape cur \<and>
           (\<forall>q. in_grid cur q \<longrightarrow>
              cell res q = (if eccentricity r > 0.6 \<and> cell cur q = label r then 0 else cell cur q))"
proof (cases "eccentricity r > 0.6")
  case True
  from setitem_class [OF w w refl, of "label r" 0]
  obtain res where "setitem cur (np_nonzero (eq_scalar cur (label r))) 0 = Inr res"
    and "wf_grid res" "shape res = shape cur"
      "\<forall>q. in_grid cur q \<longrightarrow> cell res q = (if cell cur q = label r then 0 else cell cur q)"
    by blast
  then show ?thesis using True c by (auto simp: filter_body_def)
next
  case False
  have "h[ws_updated := I64 cur] = h"
    using c by (auto simp: labels_at_def list_update_same_conv split: if_splits array.splits)
  then have "filter_body h ws_updated r = Inr (h[ws_updated := I64 cur])"
    using False by (simp add: filter_body_def)
  then show ?thesis using False w by auto
qed

lemma elongated_Cons:
  "elongated (r # rs) l \<longleftrightarrow> (label r = l \<and> eccentricity r > 0.6) \<or> elongated rs l"
  by (auto simp: elongated_def)

lemma filter_loop_effect:
  assumes c: "labels_at h ws_updated = Inr cur" and w: "wf_grid cur"
    and s: "shape cur = shape orig"
    and inv: "\<forall>q. in_grid orig q \<longrightarrow> cell cur q = (if elongated seen (cell orig q) then 0 else cell orig q)"
  shows "\<exists>res. filter_loop h ws_updated rs = Inr (h[ws_updated := I64 res]) \<and>
           wf_grid res \<and> shape res = shape orig \<and>
           (\<forall>q. in_grid orig q \<longrightarrow>
              cell res q = (if elongated (rs @ seen) (cell orig q) then 0 else cell orig q))"
  using c w s inv
proof (induction rs arbitrary: h cur seen)
  case Nil
  have "h[ws_updated := I64 cur] = h"
    using Nil.prems(1) by (auto simp: labels_at_def list_update_same_conv split: if_splits array.splits)
  then have "filter_loop h ws_updated [] = Inr (h[ws_updated := I64 cur])"
    by simp
  with Nil.prems show ?case by auto
next
  case (Cons r rs)
  from filter_body_effect [OF Cons.prems(1,2), of r]
  obtain mid where b: "filter_body h ws_updated r = Inr (h[ws_updated := I64 mid])"
    and wm: "wf_grid mid" and sm: "shape mid = shape cur"
    and cm: "\<forall>q. in_grid cur q \<longrightarrow>
              cell mid q = (if eccentricity r > 0.6 \<and> cell cur q = label r then 0 else cell cur q)"
    by blast
  let ?h = "h[ws_updated := I64 mid]"
  have len: "ws_updated < length h" using Cons.prems(1) by (rule labels_at_length)
  have c': "labels_at ?h ws_updated = Inr mid"
    using len by (simp add: labels_at_update_I64)
  have sm': "shape mid = shape orig" using sm Cons.prems(3) by simp
  have same: "in_grid cur q \<longleftrightarrow> in_grid orig q" for q
    using Cons.prems(3) by (simp add: in_grid_def shape_def)
  have inv': "\<forall>q. in_grid orig q \<longrightarrow>
                cell mid q = (if elongated (r # seen) (cell orig q) then 0 else cell orig q)"
  proof (intro allI impI)
    fix q assume q: "in_grid orig q"
    then have 1: "cell mid q = (if eccentricity r > 0.6 \<and> cell cur q = label r then 0 else cell cur q)"
      using cm same by blast
    have 2: "cell cur q = (if elongated seen (cell orig q) then 0 else cell orig q)"
      using Cons.prems(4) q by blast
    show "cell mid q = (if elongated (r # seen) (cell orig q) then 0 else cell orig q)"
      unfolding 1 2 elongated_Cons by auto
  qed
  from Cons.IH [OF c' wm sm' inv']
  obtain res where r: "filter_loop ?h ws_updated rs = Inr (?h[ws_updated := I64 res])"
    and wr: "wf_grid res" and sr: "shape res = shape orig"
    and cr: "\<forall>q. in_grid orig q \<longrightarrow>
              cell res q = (if elongated (rs @ r # seen) (cell orig q) then 0 else cell orig q)"
    by blast
  have e: "elongated (rs @ r # seen) l \<longleftrightarrow> elongated ((r # rs) @ seen) l" for l
    by (auto simp: elongated_def)
  have "filter_loop h ws_updated (r # rs) = Inr (h[ws_updated := I64 res])"
    using b r by simp
  moreover have "\<forall>q. in_grid orig q \<longrightarrow>
              cell res q = (if elongated ((r # rs) @ seen) (cell orig q) then 0 else cell orig q)"
    using cr unfolding e .
  ultimately show ?case using wr sr by blast
qed

lemma filter_regions_effect:
  assumes w: "labels_at h ws = Inr orig" and wf: "wf_grid orig"
  shows "\<exists>res. filter_regions h ws regions = Inr (h @ [I64 res], length h) \<and>
           wf_grid res \<and> shape res = shape orig \<and>
           (\<forall>q. in_grid orig q \<longrightarrow>
              cell res q = (if elongated regions (cell orig q) then 0 else cell orig q))"
proof -
  let ?h1 = "h @ [I64 orig]"
  have c: "labels_at ?h1 (length h) = Inr orig" by (simp add: labels_at_def)
  have inv: "\<forall>q. in_grid orig q \<longrightarrow> cell orig q = (if elongated [] (cell orig q) then 0 else cell orig q)"
    by (simp add: elongated_def)
  from filter_loop_effect [OF c wf refl inv, of regions]
  obtain res where r: "filter_loop ?h1 (length h) regions = Inr (?h1[length h := I64 res])"
    and p: "wf_grid res" "shape res = shape orig"
      "\<forall>q. in_grid orig q \<longrightarrow> cell res q = (if elongated regions (cell orig q) then 0 else cell orig q)"
    by auto
  have "filter_regions h ws regions = Inr (h @ [I64 res], length h)"
    using r by (simp add: filter_regions_def w alloc_def np_copy_def)
  with p show ?thesis by blast
qed

text \<open>
  Claim C4. With one descriptor per label in \<^verbatim>\<open>regions\<close>, the region filter
  returns a newly allocated label map \<^verbatim>\<open>ws_updated\<close> of the shape of \<^verbatim>\<open>ws\<close>
  in which every pixel of a region with eccentricity above \<open>0.6\<close> is \<open>0\<close> and
  every pixel of a region with eccentricity at most \<open>0.6\<close> has the label it has
  in \<^verbatim>\<open>ws\<close>; the array \<^verbatim>\<open>ws\<close> itself is unchanged.
\<close>

theorem region_filter_correct:
  assumes w: "labels_at h ws = Inr orig" and wf: "wf_grid orig"
    and d: "distinct (map label regions)"
  shows "\<exists>res. filter_regions h ws regions = Inr (h @ [I64 res], length h) \<and>
           labels_at (h @ [I64 res]) ws = Inr orig \<and>
           wf_grid res \<and> shape res = shape orig \<and>
           (\<forall>q. in_grid orig q \<longrightarrow>
              (\<forall>r\<in>set regions. label r = cell orig q \<longrightarrow>
                 cell res q = (if eccentricity r > 0.6 then 0 else cell orig q)))"
proof -
  from filter_regions_effect [OF w wf, of regions]
  obtain res where r: "filter_regions h ws regions = Inr (h @ [I64 res], length h)"
    and p: "wf_grid res" "shape res = shape orig"
    and c: "\<forall>q. in_grid orig q \<longrightarrow> cell res q = (if elongated regions (cell orig q) then 0 else cell orig q)"
    by blast
  have u: "labels_at (h @ [I64 res]) ws = Inr orig"
    using w labels_at_length [OF w] by (simp add: labels_at_def nth_append)
  have e: "elongated regions (label r) \<longleftrightarrow> eccentricity r > 0.6" if "r \<in> set regions" for r
  proof
    assume "elongated regions (label r)"
    then obtain r' where r': "r' \<in> set regions" "label r' = label r" "eccentricity r' > 0.6"
      by (auto simp: elongated_def)
    then have "r' = r" using d that by (meson distinct_map inj_onD)
    with r' show "eccentricity r > 0.6" by simp
  next
    assume "eccentricity r > 0.6"
    with that show "elongated regions (label r)" by (auto simp: elongated_def)
  qed
  have "cell res q = (if eccentricity r > 0.6 then 0 else cell orig q)"
    if "in_grid orig q" "r \<in> set regions" "label r = cell orig q" for q r
    using c [rule_format, OF that(1)] e [OF that(2)] that(3) by simp
  with r u p show ?thesis by blast
qed

theorem region_filter_correct_witness:
  "labels_at [I64 ex_ws] 0 = Inr ex_ws \<and> wf_grid ex_ws \<and>
   distinct (map label ex_regions) \<and>
   (\<exists>res. filter_regions [I64 ex_ws] 0 ex_regions = Inr ([I64 ex_ws, I64 res], 1) \<and>
          labels_at [I64 ex_ws, I64 res] 0 = Inr ex_ws \<and>
          cell res (0, 0) = 0 \<and> cell res (0, 2) = 2)"
proof -
  have w: "labels_at [I64 ex_ws] 0 = Inr ex_ws"
    by (simp add: labels_at_def)
  have wf: "wf_grid ex_ws"
    by (simp add: wf_grid_def ex_ws_def)
  have d: "distinct (map label ex_regions)"
    by (simp add: ex_regions_def)
  from region_filter_correct [OF w wf d]
  obtain res where r: "filter_regions [I64 ex_ws] 0 ex_regions = Inr ([I64 ex_ws, I64 res], 1)"
    "labels_at [I64 ex_ws, I64 res] 0 = Inr ex_ws"
    and c: "\<forall>q. in_grid ex_ws q \<longrightarrow>
              (\<forall>r\<in>set ex_regions. label r = cell ex_ws q \<longrightarrow>
                 cell res q = (if eccentricity r > 0.6 then 0 else cell ex_ws q))"
    by auto
  have "cell res (0, 0) = 0"
    using c [rule_format, of "(0, 0)" "\<lparr>label = 1, eccentricity = 0.9\<rparr>"]
    by (simp add: in_grid_def ex_ws_def ex_regions_def cell_def)
  moreover have "cell res (0, 2) = 2"
    using c [rule_format, of "(0, 2)" "\<lparr>label = 2, eccentricity = 0.3\<rparr>"]
    by (simp add: in_grid_def ex_ws_def ex_regions_def cell_def)
  ultimately show ?thesis using w wf d r by blast
qed

section \<open>Exceptions of external calls end the run\<close>

lemma succeeded_append [simp]: "succeeded (xs @ ys) \<longleftrightarrow> succeeded xs \<and> succeeded ys"
  by (simp add: succeeded_def)

lemma succeeded_Nil [simp]: "succeeded []"
  by (simp add: succeeded_def)

lemma ended_by_append: "succeeded xs \<Longrightarrow> ended_by e ys \<Longrightarrow> ended_by e (xs @ ys)"
  by (auto simp: ended_by_def butlast_append)

lemma uncaught_return: "uncaught (nb_return v)"
  by (simp add: uncaught_def nb_return_def)

lemma uncaught_lift: "uncaught (lift r)"
  by (auto simp: uncaught_def lift_def split: sum.splits)

lemma uncaught_call: "uncaught (call n r)"
  by (auto simp: uncaught_def call_def ended_by_def succeeded_def split: sum.splits)

lemma uncaught_get_var: "uncaught (get_var x)"
  by (auto simp: uncaught_def get_var_def split: option.splits)

lemma uncaught_set_var: "uncaught (set_var x v)"
  by (simp add: uncaught_def set_var_def)

lemma uncaught_deref: "uncaught (deref a)"
  by (simp add: uncaught_def deref_def)

lemma uncaught_new: "uncaught (new a)"
  by (simp add: uncaught_def new_def alloc_def)

lemma uncaught_heap_op: "uncaught (heap_op f)"
  by (auto simp: uncaught_def heap_op_def split: sum.splits prod.splits)

lemma uncaught_bind:
  assumes m: "uncaught m" and f: "\<And>v. uncaught (f v)"
  shows "uncaught (nb_bind m f)"
  unfolding uncaught_def
proof
  fix s
  from m obtain p1 where p1: "calls (snd (m s)) = calls s @ p1"
    and c1: "case fst (m s) of Inr v \<Rightarrow> succeeded p1 | Inl e \<Rightarrow> succeeded p1 \<or> ended_by e p1"
    unfolding uncaught_def by blast
  show "\<exists>post. calls (snd (nb_bind m f s)) = calls s @ post \<and>
          (case fst (nb_bind m f s) of
             Inr v \<Rightarrow> succeeded post
           | Inl e \<Rightarrow> succeeded post \<or> ended_by e post)"
  proof (cases "fst (m s)")
    case (Inl e)
    then have "nb_bind m f s = (Inl e, snd (m s))"
      by (cases "m s") (simp add: nb_bind_def)
    with p1 c1 Inl show ?thesis by auto
  next
    case (Inr v)
    then have b: "nb_bind m f s = f v (snd (m s))"
      by (cases "m s") (simp add: nb_bind_def)
    from f [of v] obtain p2 where p2: "calls (snd (f v (snd (m s)))) = calls (snd (m s)) @ p2"
      and c2: "case fst (f v (snd (m s))) of
                 Inr w \<Rightarrow> succeeded p2 | Inl e \<Rightarrow> succeeded p2 \<or> ended_by e p2"
      unfolding uncaught_def by blast
    have s1: "succeeded p1" using c1 Inr by simp
    have "calls (snd (nb_bind m f s)) = calls s @ (p1 @ p2)"
      using b p1 p2 by simp
    moreover have "case fst (nb_bind m f s) of
             Inr v \<Rightarrow> succeeded (p1 @ p2)
           | Inl e \<Rightarrow> succeeded (p1 @ p2) \<or> ended_by e (p1 @ p2)"
      using c2 s1 unfolding b by (auto split: sum.splits intro: ended_by_append)
    ultimately show ?thesis by blast
  qed
qed

lemma uncaught_seq: "uncaught m \<Longrightarrow> uncaught n \<Longrightarrow> uncaught (nb_seq m n)"
  by (simp add: nb_seq_def uncaught_bind)

lemma uncaught_ref: "uncaught (ref x)"
  unfolding ref_def
  by (intro uncaught_bind uncaught_get_var) (auto split: val.splits intro: uncaught_return uncaught_lift)

lemma uncaught_arr: "uncaught (arr x)"
  unfolding arr_def by (intro uncaught_bind uncaught_ref uncaught_deref)

lemma uncaught_assign: "uncaught m \<Longrightarrow> uncaught (assign x m)"
  unfolding assign_def by (intro uncaught_bind uncaught_new uncaught_set_var)

lemmas uncaught_intros =
  uncaught_seq uncaught_bind uncaught_assign uncaught_arr uncaught_ref uncaught_return
  uncaught_lift uncaught_call uncaught_get_var uncaught_set_var uncaught_deref uncaught_new
  uncaught_heap_op

lemma uncaught_case_val:
  "(\<And>a. uncaught (f1 a)) \<Longrightarrow> (\<And>a. uncaught (f2 a)) \<Longrightarrow> (\<And>a. uncaught (f3 a)) \<Longrightarrow>
   (\<And>a. uncaught (f4 a)) \<Longrightarrow> (\<And>a. uncaught (f5 a)) \<Longrightarrow>
   uncaught (case v of Arr a \<Rightarrow> f1 a | Str a \<Rightarrow> f2 a | Float a \<Rightarrow> f3 a | IntVal a \<Rightarrow> f4 a | Regions a \<Rightarrow> f5 a)"
  by (cases v) simp_all

lemma uncaught_bar_loop: "uncaught (bar_loop L ls)"
  by (induction ls) (auto intro!: uncaught_intros)

lemma uncaught_call_mean_color: "uncaught call_mean_color"
  unfolding call_mean_color_def by (intro uncaught_intros)

lemma uncaught_stmt_slic: "uncaught (stmt_slic L a)"
  unfolding stmt_slic_def by (intro uncaught_intros)

lemma uncaught_stmt_label_image: "uncaught stmt_label_image"
  unfolding stmt_label_image_def by (intro uncaught_intros uncaught_call_mean_color)

lemma uncaught_stmt_sobel: "uncaught (stmt_sobel L)"
  unfolding stmt_sobel_def by (intro uncaught_intros)

lemma uncaught_stmt_distance: "uncaught (stmt_distance L)"
  unfolding stmt_distance_def by (intro uncaught_intros)

lemma uncaught_stmt_peaks: "uncaught (stmt_peaks L)"
  unfolding stmt_peaks_def by (intro uncaught_intros)

lemma uncaught_stmt_watershed: "uncaught (stmt_watershed L)"
  unfolding stmt_watershed_def by (intro uncaught_intros)

lemma uncaught_stmt_filter: "uncaught stmt_filter"
  unfolding stmt_filter_def by (intro uncaught_intros uncaught_case_val)

lemmas uncaught_stmts =
  uncaught_stmt_slic uncaught_stmt_label_image uncaught_stmt_sobel uncaught_stmt_distance
  uncaught_stmt_peaks uncaught_stmt_watershed uncaught_stmt_filter

lemma uncaught_cell_future: "uncaught (cell_future L)"
  unfolding cell_future_def by (intro uncaught_intros)

lemma uncaught_cell_numpy: "uncaught (cell_numpy L)"
  unfolding cell_numpy_def by (intro uncaught_intros)

lemma uncaught_cell_imread: "uncaught (cell_imread L)"
  unfolding cell_imread_def by (intro uncaught_intros uncaught_case_val)

lemma uncaught_cell_slic_first: "uncaught (cell_slic_first L)"
  unfolding cell_slic_first_def by (intro uncaught_intros uncaught_stmts)

lemma uncaught_cell_mean_color: "uncaught (cell_mean_color L)"
  unfolding cell_mean_color_def by (intro uncaught_intros uncaught_call_mean_color)

lemma uncaught_cell_slic: "uncaught (cell_slic L a)"
  unfolding cell_slic_def by (intro uncaught_intros uncaught_stmts uncaught_call_mean_color)

lemma uncaught_cell_url2: "uncaught cell_url2"
  unfolding cell_url2_def by (intro uncaught_intros)

lemma uncaught_cell_imports: "uncaught (cell_imports L)"
  unfolding cell_imports_def by (intro uncaught_intros)

lemma uncaught_cell_sobel: "uncaught (cell_sobel L)"
  unfolding cell_sobel_def by (intro uncaught_intros uncaught_stmts)

lemma uncaught_cell_one_dimensional: "uncaught (cell_one_dimensional L)"
  unfolding cell_one_dimensional_def by (intro uncaught_intros uncaught_bar_loop)

lemma uncaught_cell_distance: "uncaught (cell_distance L)"
  unfolding cell_distance_def by (intro uncaught_intros uncaught_stmts uncaught_case_val)

lemma uncaught_cell_peaks: "uncaught (cell_peaks L)"
  unfolding cell_peaks_def by (intro uncaught_intros uncaught_stmts)

lemma uncaught_cell_watershed: "uncaught (cell_watershed L)"
  unfolding cell_watershed_def by (intro uncaught_intros uncaught_stmts)

lemma uncaught_cell_regions: "uncaught (cell_regions L)"
  unfolding cell_regions_def by (intro uncaught_intros uncaught_stmts uncaught_case_val)

lemma uncaught_cell_style: "uncaught (cell_style L)"
  unfolding cell_style_def by (intro uncaught_intros)

lemma uncaught_run_cells: "list_all uncaught cs \<Longrightarrow> uncaught (run_cells cs)"
  by (induction cs) (auto intro: uncaught_intros)

lemma uncaught_notebook: "list_all uncaught (notebook L)"
  unfolding notebook_def
  by (simp add: uncaught_cell_future uncaught_cell_numpy uncaught_cell_imread
      uncaught_cell_slic_first uncaught_cell_mean_color uncaught_cell_slic uncaught_cell_url2
      uncaught_cell_imports uncaught_cell_sobel uncaught_cell_one_dimensional
      uncaught_cell_distance uncaught_cell_peaks uncaught_cell_watershed uncaught_cell_regions
      uncaught_cell_style uncaught_return)

lemma run_failing_library:
  "fst (run_notebook failing_library) = Inl (LibraryError ''No such file'') \<and>
   calls (snd (run_notebook failing_library)) =
     [(''import __future__'', None), (''%matplotlib'', None), (''import numpy'', None),
      (''import matplotlib'', None), (''import skdemo'', None), (''plt.rcParams'', None),
      (''import skimage'', None), (''io.imread'', Some (LibraryError ''No such file''))]"
  by (simp add: run_notebook_def notebook_def initial_state_def failing_library_def
      cell_future_def cell_numpy_def cell_imread_def nb_seq_def nb_bind_def call_def
      set_var_def get_var_def assign_def)

text \<open>
  Claim C7. For every library: whenever a call to an external function raises
  during a run of the notebook's cells, the run ends with that very exception
  and the failing call is the last call made. No later step of the notebook
  runs, retries the call or reports the failure.
\<close>

theorem library_errors_propagate:
  assumes i: "i < length (calls (snd (run_notebook L)))"
    and c: "calls (snd (run_notebook L)) ! i = (n, Some e)"
  shows "fst (run_notebook L) = Inl e \<and> Suc i = length (calls (snd (run_notebook L)))"
proof -
  let ?cs = "calls (snd (run_notebook L))"
  have "uncaught (run_cells (notebook L))"
    by (rule uncaught_run_cells) (rule uncaught_notebook)
  then obtain post where p: "?cs = calls initial_state @ post"
    and r: "case fst (run_notebook L) of
              Inr v \<Rightarrow> succeeded post
            | Inl e' \<Rightarrow> succeeded post \<or> ended_by e' post"
    unfolding uncaught_def run_notebook_def by blast
  have cs: "?cs = post" using p by (simp add: initial_state_def)
  have ns: "\<not> succeeded ?cs"
    using i c by (auto simp: succeeded_def list_all_length)
  then obtain e' where e': "fst (run_notebook L) = Inl e'" and en: "ended_by e' ?cs"
    using r cs by (auto split: sum.splits)
  have "\<not> i < length (butlast ?cs)"
  proof
    assume "i < length (butlast ?cs)"
    then have "butlast ?cs ! i = ?cs ! i" by (simp add: nth_butlast)
    moreover have "snd (butlast ?cs ! i) = None"
      using en \<open>i < length (butlast ?cs)\<close> by (simp add: ended_by_def succeeded_def list_all_length)
    ultimately show False using c by simp
  qed
  then have last: "Suc i = length ?cs" using i by simp
  then have "last ?cs = ?cs ! i"
    using en by (metis diff_Suc_1 ended_by_def last_conv_nth)
  then have "e' = e" using en c by (simp add: ended_by_def)
  with e' last show ?thesis by simp
qed

theorem library_errors_propagate_witness:
  "7 < length (calls (snd (run_notebook failing_library))) \<and>
   calls (snd (run_notebook failing_library)) ! 7 =
     (''io.imread'', Some (LibraryError ''No such file'')) \<and>
   fst (run_notebook failing_library) = Inl (LibraryError ''No such file'') \<and>
   Suc 7 = length (calls (snd (run_notebook failing_library)))"
proof -
  have i: "7 < length (calls (snd (run_notebook failing_library)))"
    by (simp add: run_failing_library)
  have c: "calls (snd (run_notebook failing_library)) ! 7 =
     (''io.imread'', Some (LibraryError ''No such file''))"
    by (simp add: run_failing_library)
  from library_errors_propagate [OF i c] i c show ?thesis by simp
qed

section \<open>Re-running the clustering cell\<close>

lemma extends_refl: "extends h h"
  by (simp add: extends_def)

lemma extends_trans: "extends h h' \<Longrightarrow> extends h' h'' \<Longrightarrow> extends h h''"
  by (auto simp: extends_def)

lemma extends_append: "extends h (h @ xs)"
  by (simp add: extends_def nth_append)

lemma mean_color_body_frame:
  assumes "mean_color_body h image_ref labels_ref out_ref l = Inr h'"
  shows "length h' = length h \<and> (\<forall>a. a \<noteq> out_ref \<longrightarrow> h' ! a = h ! a)"
proof -
  from assms have "\<exists>res. h' = h[out_ref := U8 res]"
    unfolding mean_color_body_def Let_def by (simp split: sum.splits) blast
  then show ?thesis by auto
qed

lemma mean_color_loop_frame:
  "mean_color_loop h image_ref labels_ref out_ref ls = Inr h' \<Longrightarrow>
   length h' = length h \<and> (\<forall>a. a \<noteq> out_ref \<longrightarrow> h' ! a = h ! a)"
proof (induction ls arbitrary: h)
  case Nil
  then show ?case by simp
next
  case (Cons l ls)
  from Cons.prems obtain h1 where b: "mean_color_body h image_ref labels_ref out_ref l = Inr h1"
    and r: "mean_color_loop h1 image_ref labels_ref out_ref ls = Inr h'"
    by (auto split: sum.splits)
  from mean_color_body_frame [OF b] Cons.IH [OF r] show ?case by simp
qed

lemma mean_color_extends: "mean_color h image_ref labels_ref = Inr (h', out) \<Longrightarrow> extends h h'"
proof -
  assume m: "mean_color h image_ref labels_ref = Inr (h', out)"
  then obtain img where i: "image_at h image_ref = Inr img"
    by (auto simp: mean_color_def split: sum.splits)
  let ?h1 = "h @ [U8 (zeros_like img)]"
  from m i obtain lab where
    l: "mean_color_loop ?h1 image_ref labels_ref (length h) (np_unique lab) = Inr h'"
    by (auto simp: mean_color_def alloc_def split: sum.splits)
  from mean_color_loop_frame [OF l] show ?thesis
    by (auto simp: extends_def nth_append)
qed

lemma filter_body_frame:
  assumes "filter_body h ws_updated r = Inr h'"
  shows "length h' = length h \<and> (\<forall>a. a \<noteq> ws_updated \<longrightarrow> h' ! a = h ! a)"
proof -
  from assms have "h' = h \<or> (\<exists>res. h' = h[ws_updated := I64 res])"
    unfolding filter_body_def by (simp split: sum.splits if_splits) blast
  then show ?thesis by auto
qed

lemma filter_loop_frame:
  "filter_loop h ws_updated rs = Inr h' \<Longrightarrow>
   length h' = length h \<and> (\<forall>a. a \<noteq> ws_updated \<longrightarrow> h' ! a = h ! a)"
proof (induction rs arbitrary: h)
  case Nil
  then show ?case by simp
next
  case (Cons r rs)
  from Cons.prems obtain h1 where b: "filter_body h ws_updated r = Inr h1"
    and l: "filter_loop h1 ws_updated rs = Inr h'"
    by (auto split: sum.splits)
  from filter_body_frame [OF b] Cons.IH [OF l] show ?case by simp
qed

lemma array_of_calls: "array_of (s\<lparr>calls := c\<rparr>) x = array_of s x"
  by (simp add: array_of_def split: option.splits val.splits)

lemma array_of_vars: "y \<noteq> x \<Longrightarrow> array_of (s\<lparr>vars := (vars s)(y \<mapsto> v)\<rparr>) x = array_of s x"
  by (simp add: array_of_def split: option.splits val.splits)

lemma stable_return: "stable x (nb_return v)"
  by (simp add: stable_def nb_return_def)

lemma stable_lift: "stable x (lift r)"
  by (simp add: stable_def lift_def)

lemma stable_call: "stable x (call n r)"
  by (cases r) (simp_all add: stable_def call_def array_of_calls)

lemma stable_get_var: "stable x (get_var y)"
  by (auto simp: stable_def get_var_def split: option.splits)

lemma stable_set_var: "y \<noteq> x \<Longrightarrow> stable x (set_var y v)"
  by (simp add: stable_def set_var_def array_of_vars)

lemma stable_deref: "stable x (deref a)"
  by (simp add: stable_def deref_def)

lemma array_of_extends:
  assumes "array_of s x = Some v" and "extends (heap s) h"
  shows "array_of (s\<lparr>heap := h\<rparr>) x = Some v"
proof -
  from assms(1) obtain a where a: "vars s x = Some (Arr a)" "a < length (heap s)" "heap s ! a = v"
    by (auto simp: array_of_def split: option.splits val.splits if_splits)
  with assms(2) have "a < length h" "h ! a = v"
    by (auto simp: extends_def)
  with a show ?thesis by (simp add: array_of_def)
qed

lemma stable_new: "stable x (new a)"
  unfolding stable_def
proof (intro allI impI)
  fix s v assume "array_of s x = Some v"
  from array_of_extends [OF this extends_append, of "[a]"]
  show "array_of (snd (new a s)) x = Some v"
    by (simp add: new_def alloc_def)
qed

lemma stable_heap_op:
  assumes "\<And>h h' r. f h = Inr (h', r) \<Longrightarrow> extends h h'"
  shows "stable x (heap_op f)"
  unfolding stable_def
proof (intro allI impI)
  fix s v assume a: "array_of s x = Some v"
  show "array_of (snd (heap_op f s)) x = Some v"
  proof (cases "f (heap s)")
    case (Inl e)
    then show ?thesis using a by (simp add: heap_op_def)
  next
    case (Inr p)
    obtain h' r where p: "p = (h', r)" by (cases p)
    from assms [of "heap s" h' r] Inr p have "extends (heap s) h'" by simp
    from array_of_extends [OF a this] show ?thesis
      using Inr p by (simp add: heap_op_def)
  qed
qed

lemma stable_bind:
  assumes m: "stable x m" and f: "\<And>v. stable x (f v)"
  shows "stable x (nb_bind m f)"
  unfolding stable_def
proof (intro allI impI)
  fix s v assume a: "array_of s x = Some v"
  then have 1: "array_of (snd (m s)) x = Some v" using m by (simp add: stable_def)
  show "array_of (snd (nb_bind m f s)) x = Some v"
  proof (cases "fst (m s)")
    case (Inl e)
    then have "nb_bind m f s = (Inl e, snd (m s))"
      by (cases "m s") (simp add: nb_bind_def)
    with 1 show ?thesis by simp
  next
    case (Inr w)
    then have "nb_bind m f s = f w (snd (m s))"
      by (cases "m s") (simp add: nb_bind_def)
    with 1 f [of w] show ?thesis by (simp add: stable_def)
  qed
qed

lemma stable_seq: "stable x m \<Longrightarrow> stable x n \<Longrightarrow> stable x (nb_seq m n)"
  by (simp add: nb_seq_def stable_bind)

lemma stable_ref: "stable x (ref y)"
  unfolding ref_def
  by (intro stable_bind stable_get_var) (auto split: val.splits intro: stable_return stable_lift)

lemma stable_arr: "stable x (arr y)"
  unfolding arr_def by (intro stable_bind stable_ref stable_deref)

lemma stable_call_mean_color: "stable x call_mean_color"
  unfolding call_mean_color_def
  by (intro stable_bind stable_ref stable_heap_op) (rule mean_color_extends)

lemma nb_bind_Inl: "fst (m s) = Inl e \<Longrightarrow> nb_bind m f s = (Inl e, snd (m s))"
  by (cases "m s") (simp add: nb_bind_def)

lemma nb_bind_Inr: "m s = (Inr v, s') \<Longrightarrow> nb_bind m f s = f v s'"
  by (simp add: nb_bind_def)

lemma arr_eval: "array_of s x = Some v \<Longrightarrow> arr x s = (Inr v, s)"
  by (auto simp: array_of_def arr_def ref_def nb_bind_def get_var_def nb_return_def deref_def
      split: option.splits val.splits if_splits)

lemma stmt_slic_returns:
  assumes i: "array_of s ''image'' = Some img" and r: "slic L img args = Inr lab"
  shows "\<exists>s'. stmt_slic L args s = (Inr (), s') \<and> array_of s' ''labels'' = Some lab"
  by (simp add: stmt_slic_def assign_def nb_bind_def arr_eval [OF i] r call_def new_def alloc_def set_var_def
      array_of_def)

lemma stmt_slic_raises:
  assumes i: "array_of s ''image'' = Some img" and r: "slic L img args = Inl e"
  shows "fst (stmt_slic L args s) = Inl e"
  by (simp add: stmt_slic_def assign_def nb_bind_def arr_eval [OF i] r call_def)

lemma stable_rest_of_cell_slic:
  "stable ''labels''
     (nb_seq stmt_label_image
             (nb_bind (arr ''image'') (\<lambda>image.
              nb_bind (arr ''label_image'') (\<lambda>label_image.
                call ''skdemo.imshow_all'' (imshow_all L image label_image)))))"
  unfolding stmt_label_image_def
  by (intro stable_seq stable_bind stable_call_mean_color stable_set_var stable_arr stable_call)
    simp

lemma cell_slic_returns:
  assumes i: "array_of s ''image'' = Some img" and r: "slic L img args = Inr lab"
  shows "array_of (snd (cell_slic L args s)) ''labels'' = Some lab"
proof -
  from stmt_slic_returns [OF i r] obtain s' where
    a: "stmt_slic L args s = (Inr (), s')"
    and l: "array_of s' ''labels'' = Some lab"
    by blast
  from stable_rest_of_cell_slic [of L] l show ?thesis
    unfolding cell_slic_def
    by (subst nb_seq_def) (simp add: nb_bind_def a stable_def)
qed

lemma cell_slic_raises:
  assumes i: "array_of s ''image'' = Some img" and r: "slic L img args = Inl e"
  shows "fst (cell_slic L args s) = Inl e"
proof -
  let ?a = "stmt_slic L args"
  have "fst (?a s) = Inl e" using i r by (rule stmt_slic_raises)
  then have "nb_bind ?a f s = (Inl e, snd (?a s))" for f :: "unit \<Rightarrow> unit nb"
    by (rule nb_bind_Inl)
  then show ?thesis
    unfolding cell_slic_def nb_seq_def by simp
qed

text \<open>
  Claim C8. Take two states of the notebook in which \<^verbatim>\<open>image\<close> is bound to arrays
  of the same contents, whatever else they hold (in particular whatever label
  map \<^verbatim>\<open>labels\<close> is bound to). Re-running a clustering cell with the same
  parameters binds \<^verbatim>\<open>labels\<close> in both to the array that \<^verbatim>\<open>seg.slic\<close> returns for
  the image and the parameters; when \<^verbatim>\<open>seg.slic\<close> raises, both runs raise that
  exception.
\<close>

theorem slic_rerun_deterministic:
  assumes "array_of s1 ''image'' = Some img" and "array_of s2 ''image'' = Some img"
  shows "(\<forall>lab. slic L img args = Inr lab \<longrightarrow>
            array_of (snd (cell_slic L args s1)) ''labels'' = Some lab \<and>
            array_of (snd (cell_slic L args s2)) ''labels'' = Some lab) \<and>
         (\<forall>e. slic L img args = Inl e \<longrightarrow>
            fst (cell_slic L args s1) = Inl e \<and> fst (cell_slic L args s2) = Inl e)"
  using assms by (simp add: cell_slic_returns cell_slic_raises)

lemma ex_state_image: "array_of (ex_state old) ''image'' = Some (U8 ex_image)"
  by (simp add: array_of_def ex_state_def)

theorem slic_rerun_deterministic_witness:
  "array_of (ex_state ex_labels) ''image'' = Some (U8 ex_image) \<and>
   array_of (ex_state ex_ws) ''image'' = Some (U8 ex_image) \<and>
   array_of (ex_state ex_labels) ''labels'' = Some (I64 ex_labels) \<and>
   array_of (ex_state ex_ws) ''labels'' = Some (I64 ex_ws) \<and>
   slic (ex_library (I64 ex_labels)) (U8 ex_image) args_connectivity = Inr (I64 ex_labels) \<and>
   array_of (snd (cell_slic (ex_library (I64 ex_labels)) args_connectivity (ex_state ex_labels)))
     ''labels'' = Some (I64 ex_labels) \<and>
   array_of (snd (cell_slic (ex_library (I64 ex_labels)) args_connectivity (ex_state ex_ws)))
     ''labels'' = Some (I64 ex_labels) \<and>
   slic failing_library (U8 ex_image) args_sigma = Inl (LibraryError ''unused'') \<and>
   fst (cell_slic failing_library args_sigma (ex_state ex_ws)) = Inl (LibraryError ''unused'')"
proof -
  have r: "slic (ex_library (I64 ex_labels)) (U8 ex_image) args_connectivity = Inr (I64 ex_labels)"
    by (simp add: ex_library_def)
  have l1: "array_of (ex_state ex_labels) ''labels'' = Some (I64 ex_labels)"
    by (simp add: array_of_def ex_state_def)
  have l2: "array_of (ex_state ex_ws) ''labels'' = Some (I64 ex_ws)"
    by (simp add: array_of_def ex_state_def)
  from slic_rerun_deterministic [OF ex_state_image [of ex_labels] ex_state_image [of ex_ws],
      of "ex_library (I64 ex_labels)" args_connectivity] r
  have "array_of (snd (cell_slic (ex_library (I64 ex_labels)) args_connectivity (ex_state ex_labels)))
     ''labels'' = Some (I64 ex_labels) \<and>
   array_of (snd (cell_slic (ex_library (I64 ex_labels)) args_connectivity (ex_state ex_ws)))
     ''labels'' = Some (I64 ex_labels)"
    by blast
  moreover have f: "slic failing_library (U8 ex_image) args_sigma = Inl (LibraryError ''unused'')"
    by (simp add: failing_library_def)
  moreover from slic_rerun_deterministic [OF ex_state_image [of ex_ws] ex_state_image [of ex_ws],
      of failing_library args_sigma] f
  have "fst (cell_slic failing_library args_sigma (ex_state ex_ws)) = Inl (LibraryError ''unused'')"
    by blast
  ultimately show ?thesis using r l1 l2 ex_state_image by simp
qed

section \<open>A run in which every call returns\<close>

lemmas monad_defs =
  nb_seq_def nb_bind_def nb_return_def lift_def call_def get_var_def set_var_def ref_def
  deref_def arr_def new_def alloc_def heap_op_def assign_def

lemmas demo_defs = demo_state_def demo_heap_def demo_vars_def demo_calls_def

lemma demo_library_simps:
  "py_import demo_library m = Inr ()" "magic demo_library m = Inr ()"
  "py_print demo_library t as = Inr ()" "pyplot demo_library t as = Inr ()"
  "imshow_all demo_library a b = Inr ()"
  "imread demo_library ''../images/spice_1.jpg'' = Inr (U8 ex_image)"
  "slic demo_library a args = Inr (I64 ex_labels)"
  "coins demo_library = Inr (U8 ex_coins)"
  "sobel demo_library a = Inr (F64 ex_response)"
  "ndi_label demo_library (MaskVec bs) = Inr (Vec [0, 1, 0, 0, 0, 0, 0, 2, 0, 0, 0, 3], 3)"
  "watershed demo_library (Vec xs) b = Inr (Vec [1, 1, 1, 1, 1, 2, 2, 2, 2, 3, 3, 3])"
  "watershed demo_library (F64 g) b = Inr (I64 ex_ws)"
  "distance_transform_edt demo_library a = Inr (F64 ex_distance)"
  "peak_local_max demo_library a = Inr (I64 ex_peaks)"
  "regionprops demo_library a = Inr ex_regions"
  "label2rgb demo_library a b bg = Inr (U8 ex_image)"
  by (simp_all add: demo_library_def)

lemma demo_ndi_label: "ndi_label demo_library (Mask ex_mask) = Inr (I64 ex_seeds, 1)"
  by code_simp

lemma demo_normalized: "normalized (I64 ex_labels) = Inr (F64 ex_scaled)"
  by code_simp

lemma demo_mean_color_2:
  "mean_color
     [U8 ex_image, I64 ex_labels] 0 1 =
   Inr ([U8 ex_image, I64 ex_labels, U8 ex_mean],
        2)"
  by code_simp

lemma demo_mean_color_4:
  "mean_color
     [U8 ex_image, I64 ex_labels, U8 ex_mean, I64 ex_labels] 0 3 =
   Inr ([U8 ex_image, I64 ex_labels, U8 ex_mean, I64 ex_labels, U8 ex_mean],
        4)"
  by code_simp

lemma demo_mean_color_6:
  "mean_color
     [U8 ex_image, I64 ex_labels, U8 ex_mean, I64 ex_labels, U8 ex_mean, I64 ex_labels] 0 5 =
   Inr ([U8 ex_image, I64 ex_labels, U8 ex_mean, I64 ex_labels, U8 ex_mean, I64 ex_labels,
         U8 ex_mean],
        6)"
  by code_simp

lemma demo_mean_color_8:
  "mean_color
     [U8 ex_image, I64 ex_labels, U8 ex_mean, I64 ex_labels, U8 ex_mean, I64 ex_labels,
       U8 ex_mean, I64 ex_labels] 0 7 =
   Inr ([U8 ex_image, I64 ex_labels, U8 ex_mean, I64 ex_labels, U8 ex_mean, I64 ex_labels,
         U8 ex_mean, I64 ex_labels, U8 ex_mean],
        8)"
  by code_simp

lemma demo_mean_color_10:
  "mean_color
     [U8 ex_image, I64 ex_labels, U8 ex_mean, I64 ex_labels, U8 ex_mean, I64 ex_labels,
       U8 ex_mean, I64 ex_labels, U8 ex_mean, I64 ex_labels] 0 9 =
   Inr ([U8 ex_image, I64 ex_labels, U8 ex_mean, I64 ex_labels, U8 ex_mean, I64 ex_labels,
         U8 ex_mean, I64 ex_labels, U8 ex_mean, I64 ex_labels, U8 ex_mean],
        10)"
  by code_simp

lemma demo_argwhere0: "argwhere0 (Vec [0, 1, 0, 0, 0, 0, 0, 2, 0, 0, 0, 3]) = Inr (Vec [1, 7, 11])"
  by code_simp

lemma demo_unique_vec: "unique_vec (Vec [1, 1, 1, 1, 1, 2, 2, 2, 2, 3, 3, 3]) = Inr [1, 2, 3]"
  by code_simp

lemma demo_less_scalar: "less_scalar (F64 ex_response) (2 / 5) = Inr (Mask ex_non_edges)"
  by code_simp

lemma demo_zeros_bool: "zeros_bool (U8 ex_coins) = Inr (Mask (np_zeros (2, 3)))"
  by code_simp

lemma demo_index_arrays: "index_arrays (I64 ex_peaks) = Inr [(1, 1)]"
  by code_simp

lemma demo_columns: "column 0 (I64 ex_peaks) = Inr (Vec [1])" "column 1 (I64 ex_peaks) = Inr (Vec [1])"
  by code_simp+

lemma demo_set_true:
  "set_true 21 [(1, 1)]
     [U8 ex_image, I64 ex_labels, U8 ex_mean, I64 ex_labels, U8 ex_mean, I64 ex_labels,
       U8 ex_mean, I64 ex_labels, U8 ex_mean, I64 ex_labels, U8 ex_mean, U8 ex_coins,
       F64 ex_response, Vec [0, 1, 2, 3, 4, 5, 6, 7, 8, 9, 10, 11],
       Vec [1, 0, 1, 2, 1, 3, 2, 0, 2, 4, 1, 0], Vec [0, 1, 0, 0, 0, 0, 0, 2, 0, 0, 0, 3],
       Vec [1, 7, 11], Vec [1, 1, 1, 1, 1, 2, 2, 2, 2, 3, 3, 3], Mask ex_non_edges,
       F64 ex_distance, I64 ex_peaks, Mask (np_zeros (2, 3))] =
   Inr ([U8 ex_image, I64 ex_labels, U8 ex_mean, I64 ex_labels, U8 ex_mean, I64 ex_labels,
         U8 ex_mean, I64 ex_labels, U8 ex_mean, I64 ex_labels, U8 ex_mean, U8 ex_coins,
         F64 ex_response, Vec [0, 1, 2, 3, 4, 5, 6, 7, 8, 9, 10, 11],
         Vec [1, 0, 1, 2, 1, 3, 2, 0, 2, 4, 1, 0], Vec [0, 1, 0, 0, 0, 0, 0, 2, 0, 0, 0, 3],
         Vec [1, 7, 11], Vec [1, 1, 1, 1, 1, 2, 2, 2, 2, 3, 3, 3], Mask ex_non_edges,
         F64 ex_distance, I64 ex_peaks, Mask ex_mask],
        ())"
  by code_simp

lemma demo_filter_regions:
  "filter_regions
     [U8 ex_image, I64 ex_labels, U8 ex_mean, I64 ex_labels, U8 ex_mean, I64 ex_labels,
       U8 ex_mean, I64 ex_labels, U8 ex_mean, I64 ex_labels, U8 ex_mean, U8 ex_coins,
       F64 ex_response, Vec [0, 1, 2, 3, 4, 5, 6, 7, 8, 9, 10, 11],
       Vec [1, 0, 1, 2, 1, 3, 2, 0, 2, 4, 1, 0], Vec [0, 1, 0, 0, 0, 0, 0, 2, 0, 0, 0, 3],
       Vec [1, 7, 11], Vec [1, 1, 1, 1, 1, 2, 2, 2, 2, 3, 3, 3], Mask ex_non_edges,
       F64 ex_distance, I64 ex_peaks, Mask ex_mask, I64 ex_seeds, I64 ex_ws] 23 ex_regions =
   Inr ([U8 ex_image, I64 ex_labels, U8 ex_mean, I64 ex_labels, U8 ex_mean, I64 ex_labels,
         U8 ex_mean, I64 ex_labels, U8 ex_mean, I64 ex_labels, U8 ex_mean, U8 ex_coins,
         F64 ex_response, Vec [0, 1, 2, 3, 4, 5, 6, 7, 8, 9, 10, 11],
         Vec [1, 0, 1, 2, 1, 3, 2, 0, 2, 4, 1, 0], Vec [0, 1, 0, 0, 0, 0, 0, 2, 0, 0, 0, 3],
         Vec [1, 7, 11], Vec [1, 1, 1, 1, 1, 2, 2, 2, 2, 3, 3, 3], Mask ex_non_edges,
         F64 ex_distance, I64 ex_peaks, Mask ex_mask, I64 ex_seeds, I64 ex_ws,
         I64 ex_filtered],
        24)"
  by code_simp

lemmas demo_facts =
  demo_library_simps demo_ndi_label demo_normalized demo_mean_color_2 [unfolded One_nat_def]
  demo_mean_color_4
  demo_mean_color_6 demo_mean_color_8 demo_mean_color_10 demo_argwhere0 demo_unique_vec
  demo_less_scalar demo_zeros_bool demo_index_arrays demo_columns [unfolded One_nat_def]
  demo_set_true
  demo_filter_regions

lemma demo_cell_future:
  "cell_future demo_library (demo_state 0 0 0) = (Inr (), demo_state 0 0 2)"
  by (simp add: cell_future_def  monad_defs demo_defs demo_facts numeral_2_eq_2 [symmetric])

lemma demo_cell_numpy:
  "cell_numpy demo_library (demo_state 0 0 2) = (Inr (), demo_state 0 0 4)"
  by (simp add: cell_numpy_def  monad_defs demo_defs demo_facts numeral_2_eq_2 [symmetric])

lemma demo_cell_imread:
  "cell_imread demo_library (demo_state 0 0 4) = (Inr (), demo_state 1 2 8)"
  by (simp add: cell_imread_def  monad_defs demo_defs demo_facts numeral_2_eq_2 [symmetric])

lemma demo_cell_slic_first:
  "cell_slic_first demo_library (demo_state 1 2 8) = (Inr (), demo_state 2 3 11)"
  by (simp add: cell_slic_first_def stmt_slic_def monad_defs demo_defs demo_facts numeral_2_eq_2 [symmetric])

lemma demo_cell_mean_color:
  "cell_mean_color demo_library (demo_state 2 3 11) = (Inr (), demo_state 3 3 12)"
  by (simp add: cell_mean_color_def call_mean_color_def monad_defs demo_defs demo_facts numeral_2_eq_2 [symmetric])

lemma demo_cell_slic_1:
  "cell_slic demo_library args (demo_state 3 3 12) = (Inr (), demo_state 5 5 14)"
  by (simp add:  cell_slic_def stmt_slic_def stmt_label_image_def call_mean_color_def monad_defs demo_defs demo_facts numeral_2_eq_2 [symmetric])

lemma demo_cell_slic_2:
  "cell_slic demo_library args (demo_state 5 5 14) = (Inr (), demo_state 7 7 16)"
  by (simp add:  cell_slic_def stmt_slic_def stmt_label_image_def call_mean_color_def monad_defs demo_defs demo_facts numeral_2_eq_2 [symmetric])

lemma demo_cell_slic_3:
  "cell_slic demo_library args (demo_state 7 7 16) = (Inr (), demo_state 9 9 18)"
  by (simp add:  cell_slic_def stmt_slic_def stmt_label_image_def call_mean_color_def monad_defs demo_defs demo_facts numeral_2_eq_2 [symmetric])

lemma demo_cell_slic_4:
  "cell_slic demo_library args (demo_state 9 9 18) = (Inr (), demo_state 11 11 20)"
  by (simp add:  cell_slic_def stmt_slic_def stmt_label_image_def call_mean_color_def monad_defs demo_defs demo_facts numeral_2_eq_2 [symmetric])

lemma demo_cell_url2:
  "cell_url2 (demo_state 11 11 20) = (Inr (), demo_state 11 12 20)"
  by (simp add: cell_url2_def  monad_defs demo_defs demo_facts numeral_2_eq_2 [symmetric])

lemma demo_cell_imports:
  "cell_imports demo_library (demo_state 11 12 20) = (Inr (), demo_state 11 12 23)"
  by (simp add: cell_imports_def  monad_defs demo_defs demo_facts numeral_2_eq_2 [symmetric])

lemma demo_cell_sobel:
  "cell_sobel demo_library (demo_state 11 12 23) = (Inr (), demo_state 13 14 26)"
  by (simp add: cell_sobel_def stmt_sobel_def monad_defs demo_defs demo_facts numeral_2_eq_2 [symmetric])

lemma demo_cell_one_dimensional:
  "cell_one_dimensional demo_library (demo_state 13 14 26) = (Inr (), demo_state 18 19 42)"
  by (simp add: cell_one_dimensional_def eq_scalar_vec_def masked_butlast_def zeros_like_vec_def diff_positions_def Let_def monad_defs demo_defs demo_facts numeral_2_eq_2 [symmetric])

lemma demo_cell_distance:
  "cell_distance demo_library (demo_state 18 19 42) = (Inr (), demo_state 20 22 44)"
  by (simp add: cell_distance_def stmt_distance_def monad_defs demo_defs demo_facts numeral_2_eq_2 [symmetric])

lemma demo_cell_peaks:
  "cell_peaks demo_library (demo_state 20 22 44) = (Inr (), demo_state 23 26 51)"
  by (simp add: cell_peaks_def stmt_peaks_def monad_defs demo_defs demo_facts numeral_2_eq_2 [symmetric])

lemma demo_cell_watershed:
  "cell_watershed demo_library (demo_state 23 26 51) = (Inr (), demo_state 24 27 55)"
  by (simp add: cell_watershed_def stmt_watershed_def monad_defs demo_defs demo_facts numeral_2_eq_2 [symmetric])

lemma demo_cell_regions:
  "cell_regions demo_library (demo_state 24 27 55) = (Inr (), demo_state 25 29 59)"
  by (simp add: cell_regions_def stmt_filter_def monad_defs demo_defs demo_facts numeral_2_eq_2 [symmetric])

lemma demo_cell_style:
  "cell_style demo_library (demo_state 25 29 59) = (Inr (), demo_state 25 29 61)"
  by (simp add: cell_style_def  monad_defs demo_defs demo_facts numeral_2_eq_2 [symmetric])

lemma initial_state_demo: "initial_state = demo_state 0 0 0"
  by (simp add: initial_state_def demo_defs)

lemmas demo_cells =
  demo_cell_future demo_cell_numpy demo_cell_imread demo_cell_slic_first [unfolded One_nat_def]
  demo_cell_mean_color
  demo_cell_slic_1 demo_cell_slic_2 demo_cell_slic_3 demo_cell_slic_4 demo_cell_url2
  demo_cell_imports demo_cell_sobel demo_cell_one_dimensional demo_cell_distance
  demo_cell_peaks demo_cell_watershed demo_cell_regions demo_cell_style

lemma demo_prefix_3:
  "run_cells (take 3 (notebook demo_library)) initial_state = (Inr (), demo_state 1 2 8)"
  by (simp add: notebook_def initial_state_demo nb_seq_def nb_bind_def nb_return_def demo_cells)

lemma demo_prefix_4:
  "run_cells (take 4 (notebook demo_library)) initial_state = (Inr (), demo_state 2 3 11)"
  by (simp add: notebook_def initial_state_demo nb_seq_def nb_bind_def nb_return_def demo_cells)

lemma demo_prefix_5:
  "run_cells (take 5 (notebook demo_library)) initial_state = (Inr (), demo_state 3 3 12)"
  by (simp add: notebook_def initial_state_demo nb_seq_def nb_bind_def nb_return_def demo_cells)

lemma demo_prefix_12:
  "run_cells (take 12 (notebook demo_library)) initial_state = (Inr (), demo_state 13 14 26)"
  by (simp add: notebook_def initial_state_demo nb_seq_def nb_bind_def nb_return_def demo_cells)

lemma demo_prefix_14:
  "run_cells (take 14 (notebook demo_library)) initial_state = (Inr (), demo_state 20 22 44)"
  by (simp add: notebook_def initial_state_demo nb_seq_def nb_bind_def nb_return_def demo_cells)

lemma demo_prefix_15:
  "run_cells (take 15 (notebook demo_library)) initial_state = (Inr (), demo_state 23 26 51)"
  by (simp add: notebook_def initial_state_demo nb_seq_def nb_bind_def nb_return_def demo_cells)

lemma demo_prefix_16:
  "run_cells (take 16 (notebook demo_library)) initial_state = (Inr (), demo_state 24 27 55)"
  by (simp add: notebook_def initial_state_demo nb_seq_def nb_bind_def nb_return_def demo_cells)

lemma demo_run: "run_notebook demo_library = (Inr (), demo_state 25 29 61)"
  by (simp add: run_notebook_def notebook_def initial_state_demo nb_seq_def nb_bind_def
      nb_return_def demo_cells)

lemma after_cells_demo:
  "after_cells 3 demo_library = demo_state 1 2 8"
  "after_cells 4 demo_library = demo_state 2 3 11"
  "after_cells 5 demo_library = demo_state 3 3 12"
  "after_cells 12 demo_library = demo_state 13 14 26"
  "after_cells 14 demo_library = demo_state 20 22 44"
  "after_cells 15 demo_library = demo_state 23 26 51"
  "after_cells 16 demo_library = demo_state 24 27 55"
  by (simp_all add: after_cells_def demo_prefix_3 demo_prefix_4 demo_prefix_5 demo_prefix_12
      demo_prefix_14 demo_prefix_15 demo_prefix_16)

section \<open>The external calls of a run\<close>

lemma makes_calls_return: "makes_calls A (nb_return v)"
  by (simp add: makes_calls_def nb_return_def)

lemma makes_calls_lift: "makes_calls A (lift r)"
  by (simp add: makes_calls_def lift_def)

lemma makes_calls_call: "n \<in> A \<Longrightarrow> makes_calls A (call n r)"
  by (auto simp: makes_calls_def call_def split: sum.splits)

lemma makes_calls_get_var: "makes_calls A (get_var x)"
  by (auto simp: makes_calls_def get_var_def split: option.splits)

lemma makes_calls_set_var: "makes_calls A (set_var x v)"
  by (simp add: makes_calls_def set_var_def)

lemma makes_calls_deref: "makes_calls A (deref a)"
  by (simp add: makes_calls_def deref_def)

lemma makes_calls_new: "makes_calls A (new a)"
  by (simp add: makes_calls_def new_def alloc_def)

lemma makes_calls_heap_op: "makes_calls A (heap_op f)"
  by (auto simp: makes_calls_def heap_op_def split: sum.splits prod.splits)

lemma makes_calls_bind:
  assumes m: "makes_calls A m" and f: "\<And>v. makes_calls A (f v)"
  shows "makes_calls A (nb_bind m f)"
  unfolding makes_calls_def
proof
  fix s
  from m obtain p1 where p1: "calls (snd (m s)) = calls s @ p1" "fst ` set p1 \<subseteq> A"
    unfolding makes_calls_def by blast
  show "\<exists>post. calls (snd (nb_bind m f s)) = calls s @ post \<and> fst ` set post \<subseteq> A"
  proof (cases "fst (m s)")
    case (Inl e)
    then have "nb_bind m f s = (Inl e, snd (m s))"
      by (cases "m s") (simp add: nb_bind_def)
    with p1 show ?thesis by auto
  next
    case (Inr v)
    then have b: "nb_bind m f s = f v (snd (m s))"
      by (cases "m s") (simp add: nb_bind_def)
    from f [of v] obtain p2 where p2: "calls (snd (f v (snd (m s)))) = calls (snd (m s)) @ p2"
      "fst ` set p2 \<subseteq> A"
      unfolding makes_calls_def by blast
    have "calls (snd (nb_bind m f s)) = calls s @ (p1 @ p2)"
      using b p1 p2 by simp
    moreover have "fst ` set (p1 @ p2) \<subseteq> A" using p1 p2 by auto
    ultimately show ?thesis by blast
  qed
qed

lemma makes_calls_seq: "makes_calls A m \<Longrightarrow> makes_calls A n \<Longrightarrow> makes_calls A (nb_seq m n)"
  by (simp add: nb_seq_def makes_calls_bind)

lemma makes_calls_ref: "makes_calls A (ref x)"
  unfolding ref_def
  by (intro makes_calls_bind makes_calls_get_var)
     (auto split: val.splits intro: makes_calls_return makes_calls_lift)

lemma makes_calls_arr: "makes_calls A (arr x)"
  unfolding arr_def by (intro makes_calls_bind makes_calls_ref makes_calls_deref)

lemma makes_calls_assign: "makes_calls A m \<Longrightarrow> makes_calls A (assign x m)"
  unfolding assign_def by (intro makes_calls_bind makes_calls_new makes_calls_set_var)

lemmas makes_calls_intros =
  makes_calls_seq makes_calls_bind makes_calls_assign makes_calls_arr makes_calls_ref
  makes_calls_return makes_calls_lift makes_calls_call makes_calls_get_var makes_calls_set_var
  makes_calls_deref makes_calls_new makes_calls_heap_op

lemma makes_calls_case_val:
  "(\<And>a. makes_calls A (f1 a)) \<Longrightarrow> (\<And>a. makes_calls A (f2 a)) \<Longrightarrow>
   (\<And>a. makes_calls A (f3 a)) \<Longrightarrow> (\<And>a. makes_calls A (f4 a)) \<Longrightarrow>
   (\<And>a. makes_calls A (f5 a)) \<Longrightarrow>
   makes_calls A (case v of Arr a \<Rightarrow> f1 a | Str a \<Rightarrow> f2 a | Float a \<Rightarrow> f3 a
                  | IntVal a \<Rightarrow> f4 a | Regions a \<Rightarrow> f5 a)"
  by (cases v) simp_all

lemma makes_calls_silent: "makes_calls {} m \<Longrightarrow> calls (snd (m s)) = calls s"
  by (auto simp: makes_calls_def)

lemma makes_calls_call_mean_color: "makes_calls A call_mean_color"
  unfolding call_mean_color_def by (intro makes_calls_intros)

lemma makes_calls_stmt_label_image: "makes_calls A stmt_label_image"
  unfolding stmt_label_image_def by (intro makes_calls_intros makes_calls_call_mean_color)

lemma makes_calls_stmt_filter: "makes_calls A stmt_filter"
  unfolding stmt_filter_def by (intro makes_calls_intros makes_calls_case_val)

lemma fst_set_interfaces:
  "fst ` set interfaces =
     {''import __future__'', ''import numpy'', ''import matplotlib'', ''import skdemo'',
      ''import skimage'', ''import scipy'', ''%matplotlib'', ''%reload_ext'', ''plt.rcParams'',
      ''io.imread'', ''data.coins'', ''skdemo.imshow_all'', ''plt.imshow'', ''plt.figure'',
      ''plt.plot'', ''plt.bar'', ''plt.vlines'', ''plt.legend'', ''plt.axis'', ''plt.ylim'',
      ''seg.slic'', ''filters.sobel'', ''ndi.label'', ''watershed'',
      ''ndi.distance_transform_edt'', ''feature.peak_local_max'', ''regionprops'',
      ''color.label2rgb'', ''print'', ''%load_style''}"
  by (simp add: interfaces_def)

lemma makes_calls_bar_loop: "''plt.bar'' \<in> A \<Longrightarrow> makes_calls A (bar_loop L ls)"
  by (induction ls) (auto intro!: makes_calls_intros)

lemma makes_calls_cells:
  "makes_calls (fst ` set interfaces) (cell_future L)"
  "makes_calls (fst ` set interfaces) (cell_numpy L)"
  "makes_calls (fst ` set interfaces) (cell_imread L)"
  "makes_calls (fst ` set interfaces) (cell_slic_first L)"
  "makes_calls (fst ` set interfaces) (cell_mean_color L)"
  "makes_calls (fst ` set interfaces) (cell_slic L args)"
  "makes_calls (fst ` set interfaces) cell_url2"
  "makes_calls (fst ` set interfaces) (cell_imports L)"
  "makes_calls (fst ` set interfaces) (cell_sobel L)"
  "makes_calls (fst ` set interfaces) (cell_one_dimensional L)"
  "makes_calls (fst ` set interfaces) (cell_distance L)"
  "makes_calls (fst ` set interfaces) (cell_peaks L)"
  "makes_calls (fst ` set interfaces) (cell_watershed L)"
  "makes_calls (fst ` set interfaces) (cell_regions L)"
  "makes_calls (fst ` set interfaces) (cell_style L)"
  unfolding cell_future_def cell_numpy_def cell_imread_def cell_slic_first_def
    cell_mean_color_def cell_slic_def cell_url2_def cell_imports_def cell_sobel_def
    cell_one_dimensional_def cell_distance_def cell_peaks_def cell_watershed_def
    cell_regions_def cell_style_def stmt_slic_def stmt_sobel_def stmt_distance_def
    stmt_peaks_def stmt_watershed_def fst_set_interfaces
  by (intro makes_calls_intros makes_calls_case_val makes_calls_call_mean_color
        makes_calls_stmt_label_image makes_calls_stmt_filter makes_calls_bar_loop; simp)+

lemma makes_calls_run_cells: "list_all (makes_calls A) cs \<Longrightarrow> makes_calls A (run_cells cs)"
  by (induction cs) (auto intro: makes_calls_intros)

lemma makes_calls_notebook: "makes_calls (fst ` set interfaces) (run_cells (notebook L))"
  by (rule makes_calls_run_cells) (simp add: notebook_def makes_calls_cells makes_calls_return)

lemma bar_loop_imread: "bar_loop (L\<lparr>imread := f\<rparr>) ls = bar_loop L ls"
  by (induction ls) simp_all

lemma bar_loop_magic: "bar_loop (L\<lparr>magic := g\<rparr>) ls = bar_loop L ls"
  by (induction ls) simp_all

lemma cell_imread_path:
  assumes "f ''../images/spice_1.jpg'' = imread L ''../images/spice_1.jpg''"
  shows "cell_imread (L\<lparr>imread := f\<rparr>) = cell_imread L"
  by (simp add: fun_eq_iff cell_imread_def nb_seq_def nb_bind_def call_def set_var_def
      get_var_def assign_def assms split: sum.splits)

lemma notebook_imread:
  assumes "f ''../images/spice_1.jpg'' = imread L ''../images/spice_1.jpg''"
  shows "notebook (L\<lparr>imread := f\<rparr>) = notebook L"
  using cell_imread_path [of f L] assms
  by (simp add: notebook_def bar_loop_imread cell_future_def
      cell_numpy_def cell_slic_first_def cell_mean_color_def cell_slic_def cell_imports_def
      cell_sobel_def cell_one_dimensional_def cell_distance_def cell_peaks_def
      cell_watershed_def cell_regions_def cell_style_def stmt_slic_def stmt_sobel_def
      stmt_distance_def stmt_peaks_def stmt_watershed_def)

lemma cell_imread_magic: "cell_imread (L\<lparr>magic := g\<rparr>) = cell_imread L"
  by (simp add: fun_eq_iff cell_imread_def nb_seq_def nb_bind_def call_def set_var_def
      get_var_def assign_def split: sum.splits)

lemma notebook_magic:
  assumes "g ''matplotlib inline'' = magic L ''matplotlib inline''"
    and "g ''reload_ext load_style'' = magic L ''reload_ext load_style''"
    and "g ''load_style ../themes/tutorial.css'' = magic L ''load_style ../themes/tutorial.css''"
  shows "notebook (L\<lparr>magic := g\<rparr>) = notebook L"
  by (simp add: notebook_def assms bar_loop_magic cell_future_def cell_imread_magic
      cell_numpy_def cell_slic_first_def cell_mean_color_def cell_slic_def cell_imports_def
      cell_sobel_def cell_one_dimensional_def cell_distance_def cell_peaks_def
      cell_watershed_def cell_regions_def cell_style_def stmt_slic_def stmt_sobel_def
      stmt_distance_def stmt_peaks_def stmt_watershed_def)

lemma interface_of_iff: "interface_of n \<noteq> None \<longleftrightarrow> n \<in> fst ` set interfaces"
  by (simp add: interface_of_def map_of_eq_None_iff)

text \<open>
  Claim C9, as the cells have it. In every run, whatever the external
  functions do, each external call is one of the thirty functions listed in
  \<open>interfaces\<close>: imports and configuration, the two image reads
  (\<^verbatim>\<open>io.imread\<close>, \<^verbatim>\<open>data.coins\<close>), plotting, the array functions of scikit-image and
  SciPy, and besides these \<^verbatim>\<open>print\<close>, which writes text to the output of the
  cell, and the magic \<^verbatim>\<open>%load_style\<close>, which reads a style sheet. The only path
  given to \<^verbatim>\<open>io.imread\<close> is \<^verbatim>\<open>../images/spice_1.jpg\<close>, and the only magics run
  are \<^verbatim>\<open>%matplotlib inline\<close>, \<^verbatim>\<open>%reload_ext load_style\<close> and
  \<^verbatim>\<open>%load_style ../themes/tutorial.css\<close>: the run is the same under any other
  behaviour of \<^verbatim>\<open>io.imread\<close> and of the magics on other arguments.
\<close>

theorem notebook_external_calls:
  "(\<forall>c\<in>set (calls (snd (run_notebook L))). interface_of (fst c) \<noteq> None) \<and>
   (f ''../images/spice_1.jpg'' = imread L ''../images/spice_1.jpg'' \<longrightarrow>
      run_notebook (L\<lparr>imread := f\<rparr>) = run_notebook L) \<and>
   (g ''matplotlib inline'' = magic L ''matplotlib inline'' \<and>
    g ''reload_ext load_style'' = magic L ''reload_ext load_style'' \<and>
    g ''load_style ../themes/tutorial.css'' = magic L ''load_style ../themes/tutorial.css'' \<longrightarrow>
      run_notebook (L\<lparr>magic := g\<rparr>) = run_notebook L)"
proof -
  from makes_calls_notebook [of L]
  obtain post where p: "calls (snd (run_notebook L)) = calls initial_state @ post"
    "fst ` set post \<subseteq> fst ` set interfaces"
    unfolding makes_calls_def run_notebook_def by blast
  have "interface_of (fst c) \<noteq> None" if "c \<in> set (calls (snd (run_notebook L)))" for c
  proof -
    from that p have "fst c \<in> fst ` set interfaces" by (auto simp: initial_state_def)
    then show ?thesis by (simp only: interface_of_iff)
  qed
  then show ?thesis
    by (simp add: run_notebook_def notebook_imread notebook_magic)
qed

theorem notebook_external_calls_witness:
  "list_all (\<lambda>c. interface_of (fst c) \<noteq> None) (calls (snd (run_notebook demo_library))) \<and>
   length (calls (snd (run_notebook demo_library))) = 61 \<and>
   run_notebook (demo_library\<lparr>imread := (\<lambda>path. if path = ''../images/spice_1.jpg'' then Inr (U8 ex_image) else Inr (U8 ex_coins))\<rparr>) =
     run_notebook demo_library \<and>
   run_notebook (demo_library\<lparr>magic := (\<lambda>m. if m \<in> {''matplotlib inline'', ''reload_ext load_style'', ''load_style ../themes/tutorial.css''} then Inr () else Inl ValueError)\<rparr>) =
     run_notebook demo_library"
  using notebook_external_calls
    [of demo_library "\<lambda>path. if path = ''../images/spice_1.jpg'' then Inr (U8 ex_image) else Inr (U8 ex_coins)"
        "\<lambda>m. if m \<in> {''matplotlib inline'', ''reload_ext load_style'', ''load_style ../themes/tutorial.css''} then Inr () else Inl ValueError"]
  by (simp add: list_all_iff demo_library_simps demo_run demo_defs)

theorem only_images_and_plots_counterexample:
  "fst (run_notebook demo_library) = Inr () \<and>
   calls (after_cells 4 demo_library) ! 10 = (''print'', None) \<and>
   (''print'', None) \<in> set (calls (snd (run_notebook demo_library))) \<and>
   interface_of ''print'' = Some TextOutput \<and>
   last (calls (snd (run_notebook demo_library))) = (''%load_style'', None) \<and>
   interface_of ''%load_style'' = Some StyleSheetRead"
  by (simp add: demo_run after_cells_demo demo_defs interface_of_def interfaces_def)

section \<open>Which steps are calls to the library\<close>

lemma cell_regions_steps:
  "cell_regions L =
     nb_seq (stmt_regionprops L)
    (nb_seq stmt_filter
            (nb_bind (arr ''ws_updated'') (\<lambda>ws_updated.
             nb_bind (arr ''coins'') (\<lambda>c.
             nb_bind (call ''color.label2rgb'' (label2rgb L ws_updated c (Some 0))) (\<lambda>rgb.
               call ''plt.imshow'' (pyplot L ''imshow'' [rgb]))))))"
  by (simp add: cell_regions_def stmt_regionprops_def nb_seq_def nb_bind_def fun_eq_iff
      split: prod.splits sum.splits)

lemma arr_unbound: "array_of s x = None \<Longrightarrow> \<exists>e. arr x s = (Inl e, s)"
  by (auto simp: array_of_def arr_def ref_def nb_bind_def get_var_def nb_return_def deref_def lift_def
      split: option.splits val.splits if_splits)

lemma assign_call:
  assumes "array_of s y = Some c"
  shows "assign x (nb_bind (arr y) (\<lambda>a. call n (f a))) s = single_call n (f c) x s"
  by (simp add: assign_def nb_bind_def arr_eval [OF assms] call_def new_def alloc_def set_var_def
      single_call_def split: sum.splits)

lemma assign_call2:
  assumes "array_of s y = Some c" and "array_of s z = Some d"
  shows "assign x (nb_bind (arr y) (\<lambda>a. nb_bind (arr z) (\<lambda>b. call n (f a b)))) s =
         single_call n (f c d) x s"
  by (simp add: assign_def nb_bind_def arr_eval [OF assms(1)] arr_eval [OF assms(2)] call_def
      new_def alloc_def set_var_def single_call_def split: sum.splits)

lemma assign_unbound:
  assumes "array_of s y = None"
  shows "snd (assign x (nb_bind (arr y) f) s) = s \<and> fst (assign x (nb_bind (arr y) f) s) \<noteq> Inr ()"
proof -
  from arr_unbound [OF assms] obtain e where "arr y s = (Inl e, s)" ..
  then show ?thesis by (simp add: assign_def nb_bind_def)
qed

lemma array_of_bound:
  assumes "array_of s x = Some v"
  obtains a where "vars s x = Some (Arr a)" and "a < length (heap s)" and "heap s ! a = v"
  using assms by (auto simp: array_of_def split: option.splits val.splits if_splits)

lemma ref_eval: "vars s x = Some (Arr a) \<Longrightarrow> ref x s = (Inr a, s)"
  by (simp add: ref_def nb_bind_def get_var_def nb_return_def)

lemma stmt_filter_computes:
  assumes w: "array_of s ''ws'' = Some (I64 orig)" and wf: "wf_grid orig"
    and r: "vars s ''regions'' = Some (Regions rs)"
  shows "\<exists>res. stmt_filter s =
           (Inr (), s\<lparr>heap := heap s @ [I64 res],
                      vars := (vars s)(''ws_updated'' \<mapsto> Arr (length (heap s)))\<rparr>) \<and>
           shape res = shape orig \<and>
           (\<forall>q. in_grid orig q \<longrightarrow>
              cell res q = (if elongated rs (cell orig q) then 0 else cell orig q))"
proof -
  from w obtain a where a: "vars s ''ws'' = Some (Arr a)" "a < length (heap s)" "heap s ! a = I64 orig"
    by (rule array_of_bound)
  then have l: "labels_at (heap s) a = Inr orig" by (simp add: labels_at_def)
  from filter_regions_effect [OF l wf, of rs]
  obtain res where f: "filter_regions (heap s) a rs = Inr (heap s @ [I64 res], length (heap s))"
    and p: "shape res = shape orig"
      "\<forall>q. in_grid orig q \<longrightarrow> cell res q = (if elongated rs (cell orig q) then 0 else cell orig q)"
    by blast
  have "stmt_filter s =
          (Inr (), s\<lparr>heap := heap s @ [I64 res],
                     vars := (vars s)(''ws_updated'' \<mapsto> Arr (length (heap s)))\<rparr>)"
    by (simp add: stmt_filter_def nb_bind_def ref_eval [OF a(1)] get_var_def r heap_op_def f set_var_def)
  with p show ?thesis by blast
qed

lemma stmt_label_image_computes:
  assumes i: "array_of s ''image'' = Some (U8 img)" and l: "array_of s ''labels'' = Some (I64 lab)"
    and wi: "wf_image c img" and wl: "wf_grid lab" and sh: "shape lab = shape img"
  shows "\<exists>res. stmt_label_image s =
           (Inr (), s\<lparr>heap := heap s @ [U8 res],
                      vars := (vars s)(''label_image'' \<mapsto> Arr (length (heap s)))\<rparr>) \<and>
           shape res = shape img \<and>
           (\<forall>p. in_grid img p \<longrightarrow>
              (\<forall>k<c. cell res p ! k = astype_uint8 (class_mean img lab p k)))"
proof -
  from i obtain a where a: "vars s ''image'' = Some (Arr a)" "a < length (heap s)" "heap s ! a = U8 img"
    by (rule array_of_bound)
  from l obtain b where b: "vars s ''labels'' = Some (Arr b)" "b < length (heap s)" "heap s ! b = I64 lab"
    by (rule array_of_bound)
  have ia: "image_at (heap s) a = Inr img" using a by (simp add: image_at_def)
  have lb: "labels_at (heap s) b = Inr lab" using b by (simp add: labels_at_def)
  from mean_color_result [OF ia lb wi wl sh]
  obtain res where m: "mean_color (heap s) a b = Inr (heap s @ [U8 res], length (heap s))"
    and p: "shape res = shape img"
      "\<forall>p. in_grid img p \<longrightarrow> (\<forall>k<c. cell res p ! k = astype_uint8 (class_mean img lab p k))"
    by blast
  have "stmt_label_image s =
          (Inr (), s\<lparr>heap := heap s @ [U8 res],
                     vars := (vars s)(''label_image'' \<mapsto> Arr (length (heap s)))\<rparr>)"
    by (simp add: stmt_label_image_def call_mean_color_def nb_bind_def ref_eval [OF a(1)]
        ref_eval [OF b(1)] heap_op_def m set_var_def)
  with p show ?thesis by blast
qed

text \<open>
  Claim C1, as the cells have it. Clustering, edge detection, the distance
  transform, peak finding and flooding are each one call to a function of the
  library on the arrays that global names are bound to: the step records that
  one call, raises what the call raises, and otherwise binds its name to the
  array the call returned, unchanged; when the name of an argument is unbound
  the step raises before any call. The labelled output (\<^verbatim>\<open>mean_color\<close>) and
  the region filter make no external call in any state: the arrays they bind
  are computed by the notebook's own loops, the class means of the image and
  the label map with the elongated regions set to \<open>0\<close>.
\<close>

theorem pipeline_steps:
  "(array_of s ''image'' = Some im \<longrightarrow>
      stmt_slic L args s = single_call ''seg.slic'' (slic L im args) ''labels'' s) \<and>
   (array_of s ''coins'' = Some cn \<longrightarrow>
      stmt_sobel L s = single_call ''filters.sobel'' (sobel L cn) ''edges'' s) \<and>
   (array_of s ''non_edges'' = Some ne \<longrightarrow>
      stmt_distance L s =
        single_call ''ndi.distance_transform_edt'' (distance_transform_edt L ne)
          ''distance_from_edge'' s) \<and>
   (array_of s ''distance_from_edge'' = Some d \<longrightarrow>
      stmt_peaks L s = single_call ''feature.peak_local_max'' (peak_local_max L d) ''peaks'' s) \<and>
   (array_of s ''edges'' = Some e \<and> array_of s ''seeds'' = Some sd \<longrightarrow>
      stmt_watershed L s = single_call ''watershed'' (watershed L e sd) ''ws'' s) \<and>
   (array_of s ''image'' = None \<longrightarrow>
      snd (stmt_slic L args s) = s \<and> fst (stmt_slic L args s) \<noteq> Inr ()) \<and>
   (array_of s ''coins'' = None \<longrightarrow>
      snd (stmt_sobel L s) = s \<and> fst (stmt_sobel L s) \<noteq> Inr ()) \<and>
   (array_of s ''non_edges'' = None \<longrightarrow>
      snd (stmt_distance L s) = s \<and> fst (stmt_distance L s) \<noteq> Inr ()) \<and>
   (array_of s ''distance_from_edge'' = None \<longrightarrow>
      snd (stmt_peaks L s) = s \<and> fst (stmt_peaks L s) \<noteq> Inr ()) \<and>
   (array_of s ''edges'' = None \<or> array_of s ''seeds'' = None \<longrightarrow>
      snd (stmt_watershed L s) = s \<and> fst (stmt_watershed L s) \<noteq> Inr ()) \<and>
   calls (snd (stmt_label_image s)) = calls s \<and>
   calls (snd (stmt_filter s)) = calls s \<and>
   (array_of s ''image'' = Some (U8 img) \<and> array_of s ''labels'' = Some (I64 lab) \<and>
    wf_image c img \<and> wf_grid lab \<and> shape lab = shape img \<longrightarrow>
      (\<exists>res. stmt_label_image s =
                (Inr (), s\<lparr>heap := heap s @ [U8 res],
                           vars := (vars s)(''label_image'' \<mapsto> Arr (length (heap s)))\<rparr>) \<and>
              shape res = shape img \<and>
              (\<forall>p. in_grid img p \<longrightarrow>
                 (\<forall>k<c. cell res p ! k = astype_uint8 (class_mean img lab p k))))) \<and>
   (array_of s ''ws'' = Some (I64 orig) \<and> wf_grid orig \<and>
    vars s ''regions'' = Some (Regions rs) \<longrightarrow>
      (\<exists>res. stmt_filter s =
                (Inr (), s\<lparr>heap := heap s @ [I64 res],
                           vars := (vars s)(''ws_updated'' \<mapsto> Arr (length (heap s)))\<rparr>) \<and>
              shape res = shape orig \<and>
              (\<forall>q. in_grid orig q \<longrightarrow>
                 cell res q = (if elongated rs (cell orig q) then 0 else cell orig q))))"
proof -
  have 1: "array_of s ''image'' = Some im \<longrightarrow>
      stmt_slic L args s = single_call ''seg.slic'' (slic L im args) ''labels'' s"
    by (simp add: stmt_slic_def assign_call)
  have 2: "array_of s ''coins'' = Some cn \<longrightarrow>
      stmt_sobel L s = single_call ''filters.sobel'' (sobel L cn) ''edges'' s"
    by (simp add: stmt_sobel_def assign_call)
  have 3: "array_of s ''non_edges'' = Some ne \<longrightarrow>
      stmt_distance L s =
        single_call ''ndi.distance_transform_edt'' (distance_transform_edt L ne)
          ''distance_from_edge'' s"
    by (simp add: stmt_distance_def assign_call)
  have 4: "array_of s ''distance_from_edge'' = Some d \<longrightarrow>
      stmt_peaks L s = single_call ''feature.peak_local_max'' (peak_local_max L d) ''peaks'' s"
    by (simp add: stmt_peaks_def assign_call)
  have 5: "array_of s ''edges'' = Some e \<and> array_of s ''seeds'' = Some sd \<longrightarrow>
      stmt_watershed L s = single_call ''watershed'' (watershed L e sd) ''ws'' s"
    by (simp add: stmt_watershed_def assign_call2)
  have 6: "array_of s ''image'' = None \<longrightarrow>
      snd (stmt_slic L args s) = s \<and> fst (stmt_slic L args s) \<noteq> Inr ()"
    unfolding stmt_slic_def by (intro impI assign_unbound)
  have 7: "array_of s ''coins'' = None \<longrightarrow>
      snd (stmt_sobel L s) = s \<and> fst (stmt_sobel L s) \<noteq> Inr ()"
    unfolding stmt_sobel_def by (intro impI assign_unbound)
  have 8: "array_of s ''non_edges'' = None \<longrightarrow>
      snd (stmt_distance L s) = s \<and> fst (stmt_distance L s) \<noteq> Inr ()"
    unfolding stmt_distance_def by (intro impI assign_unbound)
  have 9: "array_of s ''distance_from_edge'' = None \<longrightarrow>
      snd (stmt_peaks L s) = s \<and> fst (stmt_peaks L s) \<noteq> Inr ()"
    unfolding stmt_peaks_def by (intro impI assign_unbound)
  have 10: "array_of s ''edges'' = None \<or> array_of s ''seeds'' = None \<longrightarrow>
      snd (stmt_watershed L s) = s \<and> fst (stmt_watershed L s) \<noteq> Inr ()"
  proof
    assume u: "array_of s ''edges'' = None \<or> array_of s ''seeds'' = None"
    show "snd (stmt_watershed L s) = s \<and> fst (stmt_watershed L s) \<noteq> Inr ()"
    proof (cases "array_of s ''edges''")
      case None
      then show ?thesis unfolding stmt_watershed_def by (rule assign_unbound)
    next
      case (Some e')
      with u have "array_of s ''seeds'' = None" by simp
      from arr_unbound [OF this] obtain err where "arr ''seeds'' s = (Inl err, s)" ..
      then show ?thesis
        by (simp add: stmt_watershed_def assign_def nb_bind_def arr_eval [OF Some])
    qed
  qed
  have 11: "calls (snd (stmt_label_image s)) = calls s"
    by (rule makes_calls_silent) (rule makes_calls_stmt_label_image)
  have 12: "calls (snd (stmt_filter s)) = calls s"
    by (rule makes_calls_silent) (rule makes_calls_stmt_filter)
  have 13: "array_of s ''image'' = Some (U8 img) \<and> array_of s ''labels'' = Some (I64 lab) \<and>
    wf_image c img \<and> wf_grid lab \<and> shape lab = shape img \<longrightarrow>
      (\<exists>res. stmt_label_image s =
                (Inr (), s\<lparr>heap := heap s @ [U8 res],
                           vars := (vars s)(''label_image'' \<mapsto> Arr (length (heap s)))\<rparr>) \<and>
              shape res = shape img \<and>
              (\<forall>p. in_grid img p \<longrightarrow>
                 (\<forall>k<c. cell res p ! k = astype_uint8 (class_mean img lab p k))))"
    by (intro impI, elim conjE) (rule stmt_label_image_computes)
  have 14: "array_of s ''ws'' = Some (I64 orig) \<and> wf_grid orig \<and>
    vars s ''regions'' = Some (Regions rs) \<longrightarrow>
      (\<exists>res. stmt_filter s =
                (Inr (), s\<lparr>heap := heap s @ [I64 res],
                           vars := (vars s)(''ws_updated'' \<mapsto> Arr (length (heap s)))\<rparr>) \<and>
              shape res = shape orig \<and>
              (\<forall>q. in_grid orig q \<longrightarrow>
                 cell res q = (if elongated rs (cell orig q) then 0 else cell orig q)))"
    by (intro impI, elim conjE) (rule stmt_filter_computes)
  show ?thesis
    by (intro conjI 1 2 3 4 5 6 7 8 9 10 11 12 13 14)
qed

lemma before_label_image_demo: "before_label_image demo_library = demo_state 4 4 13"
  by (simp add: before_label_image_def after_cells_demo stmt_slic_def monad_defs demo_defs
      demo_facts numeral_2_eq_2 [symmetric])

lemma stmt_label_image_demo: "stmt_label_image (demo_state 4 4 13) = (Inr (), demo_state 5 5 13)"
  by (simp add: stmt_label_image_def call_mean_color_def monad_defs demo_defs demo_facts
      numeral_2_eq_2 [symmetric])

lemma before_filter_demo: "before_filter demo_library = demo_state 24 28 57"
  by (simp add: before_filter_def after_cells_demo stmt_regionprops_def monad_defs demo_defs
      demo_facts numeral_2_eq_2 [symmetric])

lemma stmt_filter_demo: "stmt_filter (demo_state 24 28 57) = (Inr (), demo_state 25 29 57)"
  by (simp add: stmt_filter_def monad_defs demo_defs demo_facts numeral_2_eq_2 [symmetric])

lemma array_of_demo:
  "array_of (demo_state 1 2 8) ''image'' = Some (U8 ex_image)"
  "array_of (demo_state 13 14 26) ''coins'' = Some (U8 ex_coins)"
  "array_of (demo_state 20 22 44) ''non_edges'' = Some (Mask ex_non_edges)"
  "array_of (demo_state 20 22 44) ''distance_from_edge'' = Some (F64 ex_distance)"
  "array_of (demo_state 23 26 51) ''edges'' = Some (F64 ex_response)"
  "array_of (demo_state 23 26 51) ''seeds'' = Some (I64 ex_seeds)"
  "array_of (demo_state 4 4 13) ''image'' = Some (U8 ex_image)"
  "array_of (demo_state 4 4 13) ''labels'' = Some (I64 ex_labels)"
  "array_of (demo_state 5 5 13) ''label_image'' = Some (U8 ex_mean)"
  "array_of (demo_state 24 28 57) ''ws'' = Some (I64 ex_ws)"
  "vars (demo_state 24 28 57) ''regions'' = Some (Regions ex_regions)"
  "array_of (demo_state 25 29 57) ''ws_updated'' = Some (I64 ex_filtered)"
  "array_of (demo_state 0 0 0) x = None"
  by (simp_all add: array_of_def demo_defs)

theorem pipeline_steps_witness:
  "array_of (after_cells 3 demo_library) ''image'' = Some (U8 ex_image) \<and>
   stmt_slic demo_library args_first (after_cells 3 demo_library) =
     single_call ''seg.slic'' (Inr (I64 ex_labels)) ''labels'' (after_cells 3 demo_library) \<and>
   array_of (after_cells 12 demo_library) ''coins'' = Some (U8 ex_coins) \<and>
   stmt_sobel demo_library (after_cells 12 demo_library) =
     single_call ''filters.sobel'' (Inr (F64 ex_response)) ''edges'' (after_cells 12 demo_library) \<and>
   array_of (after_cells 14 demo_library) ''non_edges'' = Some (Mask ex_non_edges) \<and>
   stmt_distance demo_library (after_cells 14 demo_library) =
     single_call ''ndi.distance_transform_edt'' (Inr (F64 ex_distance)) ''distance_from_edge''
       (after_cells 14 demo_library) \<and>
   array_of (after_cells 14 demo_library) ''distance_from_edge'' = Some (F64 ex_distance) \<and>
   stmt_peaks demo_library (after_cells 14 demo_library) =
     single_call ''feature.peak_local_max'' (Inr (I64 ex_peaks)) ''peaks''
       (after_cells 14 demo_library) \<and>
   array_of (after_cells 15 demo_library) ''edges'' = Some (F64 ex_response) \<and>
   array_of (after_cells 15 demo_library) ''seeds'' = Some (I64 ex_seeds) \<and>
   stmt_watershed demo_library (after_cells 15 demo_library) =
     single_call ''watershed'' (Inr (I64 ex_ws)) ''ws'' (after_cells 15 demo_library) \<and>
   array_of initial_state ''image'' = None \<and>
   snd (stmt_slic demo_library args_first initial_state) = initial_state \<and>
   fst (stmt_slic demo_library args_first initial_state) \<noteq> Inr () \<and>
   fst (stmt_sobel demo_library initial_state) \<noteq> Inr () \<and>
   fst (stmt_distance demo_library initial_state) \<noteq> Inr () \<and>
   fst (stmt_peaks demo_library initial_state) \<noteq> Inr () \<and>
   fst (stmt_watershed demo_library initial_state) \<noteq> Inr () \<and>
   array_of (before_label_image demo_library) ''image'' = Some (U8 ex_image) \<and>
   array_of (before_label_image demo_library) ''labels'' = Some (I64 ex_labels) \<and>
   wf_image 2 ex_image \<and> wf_grid ex_labels \<and> shape ex_labels = shape ex_image \<and>
   (\<exists>res. fst (stmt_label_image (before_label_image demo_library)) = Inr () \<and>
          array_of (snd (stmt_label_image (before_label_image demo_library))) ''label_image'' =
            Some (U8 res) \<and>
          cell res (0, 1) ! 1 = astype_uint8 (class_mean ex_image ex_labels (0, 1) 1)) \<and>
   array_of (before_filter demo_library) ''ws'' = Some (I64 ex_ws) \<and> wf_grid ex_ws \<and>
   vars (before_filter demo_library) ''regions'' = Some (Regions ex_regions) \<and>
   (\<exists>res. fst (stmt_filter (before_filter demo_library)) = Inr () \<and>
          array_of (snd (stmt_filter (before_filter demo_library))) ''ws_updated'' =
            Some (I64 res) \<and>
          cell res (0, 0) = 0 \<and> cell res (0, 2) = 2)"
proof -
  note t = pipeline_steps [where L = demo_library]
  note a = array_of_demo [folded after_cells_demo before_label_image_demo before_filter_demo
      initial_state_demo]
  have 1: "stmt_slic demo_library args_first (after_cells 3 demo_library) =
     single_call ''seg.slic'' (Inr (I64 ex_labels)) ''labels'' (after_cells 3 demo_library)"
    using t [where s = "after_cells 3 demo_library" and im = "U8 ex_image" and args = args_first, THEN conjunct1]
      a(1) by (simp add: demo_library_simps)
  have 2: "stmt_sobel demo_library (after_cells 12 demo_library) =
     single_call ''filters.sobel'' (Inr (F64 ex_response)) ''edges'' (after_cells 12 demo_library)"
    using t [where s = "after_cells 12 demo_library" and cn = "U8 ex_coins", THEN conjunct2, THEN conjunct1] a(2)
    by (simp add: demo_library_simps)
  have 3: "stmt_distance demo_library (after_cells 14 demo_library) =
     single_call ''ndi.distance_transform_edt'' (Inr (F64 ex_distance)) ''distance_from_edge''
       (after_cells 14 demo_library)"
    using t [where s = "after_cells 14 demo_library" and ne = "Mask ex_non_edges", THEN conjunct2, THEN conjunct2, THEN conjunct1] a(3)
    by (simp add: demo_library_simps)
  have 4: "stmt_peaks demo_library (after_cells 14 demo_library) =
     single_call ''feature.peak_local_max'' (Inr (I64 ex_peaks)) ''peaks''
       (after_cells 14 demo_library)"
    using t [where s = "after_cells 14 demo_library" and d = "F64 ex_distance", THEN conjunct2, THEN conjunct2, THEN conjunct2, THEN conjunct1] a(4)
    by (simp add: demo_library_simps)
  have 5: "stmt_watershed demo_library (after_cells 15 demo_library) =
     single_call ''watershed'' (Inr (I64 ex_ws)) ''ws'' (after_cells 15 demo_library)"
    using t [where s = "after_cells 15 demo_library" and e = "F64 ex_response"
        and sd = "I64 ex_seeds", THEN conjunct2, THEN conjunct2, THEN conjunct2, THEN conjunct2, THEN conjunct1] a(5,6)
    by (simp add: demo_library_simps)
  have 6: "snd (stmt_slic demo_library args_first initial_state) = initial_state \<and>
     fst (stmt_slic demo_library args_first initial_state) \<noteq> Inr ()"
    using t [where s = initial_state and args = args_first, THEN conjunct2, THEN conjunct2, THEN conjunct2, THEN conjunct2, THEN conjunct2, THEN conjunct1] a(13) by simp
  have 9: "fst (stmt_sobel demo_library initial_state) \<noteq> Inr ()"
    using t [where s = initial_state, THEN conjunct2, THEN conjunct2, THEN conjunct2, THEN conjunct2, THEN conjunct2, THEN conjunct2, THEN conjunct1] a(13) by simp
  have 10: "fst (stmt_distance demo_library initial_state) \<noteq> Inr ()"
    using t [where s = initial_state, THEN conjunct2, THEN conjunct2, THEN conjunct2, THEN conjunct2, THEN conjunct2, THEN conjunct2, THEN conjunct2, THEN conjunct1] a(13) by simp
  have 11: "fst (stmt_peaks demo_library initial_state) \<noteq> Inr ()"
    using t [where s = initial_state, THEN conjunct2, THEN conjunct2, THEN conjunct2, THEN conjunct2, THEN conjunct2, THEN conjunct2, THEN conjunct2, THEN conjunct2, THEN conjunct1] a(13) by simp
  have 12: "fst (stmt_watershed demo_library initial_state) \<noteq> Inr ()"
    using t [where s = initial_state, THEN conjunct2, THEN conjunct2, THEN conjunct2, THEN conjunct2, THEN conjunct2, THEN conjunct2, THEN conjunct2, THEN conjunct2, THEN conjunct2, THEN conjunct1] a(13) by simp
  have wi: "wf_image 2 ex_image"
    by (simp add: wf_image_def wf_grid_def ex_image_def)
  have wl: "wf_grid ex_labels"
    by (simp add: wf_grid_def ex_labels_def)
  have sh: "shape ex_labels = shape ex_image"
    by (simp add: shape_def ex_labels_def ex_image_def)
  have ww: "wf_grid ex_ws"
    by (simp add: wf_grid_def ex_ws_def)
  let ?s = "before_label_image demo_library"
  from t [where s = ?s and img = ex_image and lab = ex_labels and c = 2, THEN conjunct2, THEN conjunct2, THEN conjunct2, THEN conjunct2, THEN conjunct2, THEN conjunct2, THEN conjunct2, THEN conjunct2, THEN conjunct2, THEN conjunct2, THEN conjunct2, THEN conjunct2, THEN conjunct1] a(7,8) wi wl sh
  obtain res where r: "stmt_label_image ?s =
      (Inr (), ?s\<lparr>heap := heap ?s @ [U8 res],
                  vars := (vars ?s)(''label_image'' \<mapsto> Arr (length (heap ?s)))\<rparr>)"
    and c: "\<forall>p. in_grid ex_image p \<longrightarrow>
              (\<forall>k<2. cell res p ! k = astype_uint8 (class_mean ex_image ex_labels p k))"
    by blast
  have "cell res (0, 1) ! 1 = astype_uint8 (class_mean ex_image ex_labels (0, 1) 1)"
    using c [rule_format, of "(0, 1)" 1] by (simp add: in_grid_def ex_image_def)
  with r have 7: "\<exists>res. fst (stmt_label_image ?s) = Inr () \<and>
          array_of (snd (stmt_label_image ?s)) ''label_image'' = Some (U8 res) \<and>
          cell res (0, 1) ! 1 = astype_uint8 (class_mean ex_image ex_labels (0, 1) 1)"
    by (auto simp: array_of_def)
  let ?f = "before_filter demo_library"
  from t [where s = ?f and orig = ex_ws and rs = ex_regions, THEN conjunct2, THEN conjunct2, THEN conjunct2, THEN conjunct2, THEN conjunct2, THEN conjunct2, THEN conjunct2, THEN conjunct2, THEN conjunct2, THEN conjunct2, THEN conjunct2, THEN conjunct2, THEN conjunct2] a(10,11) ww
  obtain out where o: "stmt_filter ?f =
      (Inr (), ?f\<lparr>heap := heap ?f @ [I64 out],
                  vars := (vars ?f)(''ws_updated'' \<mapsto> Arr (length (heap ?f)))\<rparr>)"
    and q: "\<forall>q. in_grid ex_ws q \<longrightarrow>
              cell out q = (if elongated ex_regions (cell ex_ws q) then 0 else cell ex_ws q)"
    by blast
  have "cell out (0, 0) = 0"
    using q [rule_format, of "(0, 0)"]
    by (simp add: in_grid_def ex_ws_def cell_def elongated_def ex_regions_def)
  moreover have "cell out (0, 2) = 2"
    using q [rule_format, of "(0, 2)"]
    by (simp add: in_grid_def ex_ws_def cell_def elongated_def ex_regions_def)
  ultimately have 8: "\<exists>res. fst (stmt_filter ?f) = Inr () \<and>
          array_of (snd (stmt_filter ?f)) ''ws_updated'' = Some (I64 res) \<and>
          cell res (0, 0) = 0 \<and> cell res (0, 2) = 2"
    using o by (auto simp: array_of_def)
  show ?thesis
    by (intro conjI 1 2 3 4 5 6 [THEN conjunct1] 6 [THEN conjunct2] 7 8 9 10 11 12 a wi wl sh
        ww)
qed

text \<open>
  In the run in which every call returns, the labelled output and the region
  filter return without an external call, and each binds an array: the filter
  the label map \<open>ex_filtered\<close>, which no call returned and no name was bound to
  before.
\<close>

theorem local_steps_counterexample:
  "fst (stmt_label_image (before_label_image demo_library)) = Inr () \<and>
   calls (snd (stmt_label_image (before_label_image demo_library))) =
     calls (before_label_image demo_library) \<and>
   array_of (snd (stmt_label_image (before_label_image demo_library))) ''label_image'' =
     Some (U8 ex_mean) \<and>
   fst (stmt_filter (before_filter demo_library)) = Inr () \<and>
   calls (snd (stmt_filter (before_filter demo_library))) = calls (before_filter demo_library) \<and>
   last (calls (before_filter demo_library)) = (''regionprops'', None) \<and>
   array_of (before_filter demo_library) ''ws'' = Some (I64 ex_ws) \<and>
   array_of (snd (stmt_filter (before_filter demo_library))) ''ws_updated'' =
     Some (I64 ex_filtered) \<and>
   I64 ex_filtered \<notin> set (heap (before_filter demo_library))"
proof -
  have "last (calls (demo_state 24 28 57)) = (''regionprops'', None)"
    by (simp add: demo_defs)
  moreover have "calls (demo_state 25 29 57) = calls (demo_state 24 28 57)"
    and "calls (demo_state 5 5 13) = calls (demo_state 4 4 13)"
    by (simp_all add: demo_defs)
  moreover have "I64 ex_filtered \<notin> set (heap (demo_state 24 28 57))"
    by (simp add: demo_defs ex_filtered_def ex_labels_def ex_peaks_def ex_seeds_def ex_ws_def)
  ultimately show ?thesis
    by (simp add: before_label_image_demo before_filter_demo stmt_label_image_demo
        stmt_filter_demo array_of_demo)
qed

section \<open>The seeds of the watershed\<close>





















section \<open>The distance map and the thresholded edges\<close>

lemma float_ge_iff: "x \<noteq> NaN \<Longrightarrow> float_ge x t \<longleftrightarrow> \<not> float_less x t"
  by (cases x) auto

lemma in_grid_non_edges [simp]: "in_grid (non_edges g t) p \<longleftrightarrow> in_grid g p"
  by (simp add: in_grid_def non_edges_def map_grid_def)

lemma positions_non_edges [simp]: "positions (non_edges g t) = positions g"
  by (simp add: positions_def non_edges_def map_grid_def)

lemma cell_non_edges:
  "wf_grid g \<Longrightarrow> in_grid g p \<Longrightarrow> cell (non_edges g t) p \<longleftrightarrow> float_less (cell g p) t"
  by (simp add: non_edges_def map_grid_def cell_def in_grid_def wf_grid_def list_all_iff)

lemma cell_distance_transform:
  "in_grid m p \<Longrightarrow>
   cell (distance_transform m) p =
     Min (set (map (euclidean p) (filter (\<lambda>q. \<not> cell m q) (positions m))))"
  by (cases p) (simp add: distance_transform_def cell_def in_grid_def)

lemma cell_no_nan:
  assumes "wf_grid g" and "list_all (list_all (\<lambda>x. x \<noteq> NaN)) (rows g)" and "in_grid g p"
  shows "cell g p \<noteq> NaN"
proof -
  have r: "rows g ! fst p \<in> set (rows g)"
    using assms by (simp add: wf_grid_def in_grid_def)
  then have "length (rows g ! fst p) = ncols g"
    using assms by (simp add: wf_grid_def list_all_iff)
  then have "rows g ! fst p ! snd p \<in> set (rows g ! fst p)"
    using assms by (simp add: in_grid_def)
  with r assms(2) show ?thesis
    by (auto simp: list_all_iff cell_def)
qed

lemma euclidean_self [simp]: "euclidean p p = 0"
  by (simp add: euclidean_def)

lemma euclidean_nonneg [simp]: "0 \<le> euclidean p q"
  by (simp add: euclidean_def)

text \<open>
  Claim C5. On an edge image without NaN entries that has a boundary pixel (a
  pixel whose Sobel response is at least \<open>0.4\<close>), the distance map holds, at
  every pixel, the Euclidean distance to a boundary pixel, and no boundary
  pixel is nearer; at a boundary pixel it is \<open>0\<close>.
\<close>

theorem distance_from_edge_nearest_boundary:
  assumes wf: "wf_grid edges" and nan: "list_all (list_all (\<lambda>x. x \<noteq> NaN)) (rows edges)"
    and ex: "\<exists>q. in_grid edges q \<and> float_ge (cell edges q) 0.4"
    and p: "in_grid edges p"
  shows "(\<exists>q. in_grid edges q \<and> float_ge (cell edges q) 0.4 \<and>
              cell (distance_from_edge edges) p = euclidean p q) \<and>
         (\<forall>q. in_grid edges q \<and> float_ge (cell edges q) 0.4 \<longrightarrow>
              cell (distance_from_edge edges) p \<le> euclidean p q) \<and>
         (float_ge (cell edges p) 0.4 \<longrightarrow> cell (distance_from_edge edges) p = 0)"
proof -
  let ?B = "{q. in_grid edges q \<and> float_ge (cell edges q) 0.4}"
  let ?m = "non_edges edges 0.4"
  have b: "set (filter (\<lambda>q. \<not> cell ?m q) (positions ?m)) = ?B"
    using wf nan by (auto simp: set_positions cell_non_edges float_ge_iff cell_no_nan)
  have d: "cell (distance_from_edge edges) p = Min (euclidean p ` ?B)"
    unfolding distance_from_edge_def using p b by (simp add: cell_distance_transform)
  have "?B \<subseteq> set (positions edges)" by (auto simp: set_positions)
  then have fin: "finite (euclidean p ` ?B)"
    by (meson List.finite_set finite_imageI finite_subset)
  have ne: "euclidean p ` ?B \<noteq> {}" using ex by auto
  have "Min (euclidean p ` ?B) \<in> euclidean p ` ?B"
    using fin ne by (rule Min_in)
  then have 1: "\<exists>q. in_grid edges q \<and> float_ge (cell edges q) 0.4 \<and>
              cell (distance_from_edge edges) p = euclidean p q"
    unfolding d by auto
  have 2: "cell (distance_from_edge edges) p \<le> euclidean p q"
    if "in_grid edges q \<and> float_ge (cell edges q) 0.4" for q
    unfolding d using fin that by (intro Min_le) auto
  have 3: "cell (distance_from_edge edges) p = 0" if "float_ge (cell edges p) 0.4"
  proof -
    from 2 [of p] p that have "cell (distance_from_edge edges) p \<le> 0" by simp
    moreover from 1 have "0 \<le> cell (distance_from_edge edges) p" by auto
    ultimately show ?thesis by simp
  qed
  from 1 2 3 show ?thesis by blast
qed

theorem distance_from_edge_nearest_boundary_witness:
  "wf_grid ex_edges \<and> list_all (list_all (\<lambda>x. x \<noteq> NaN)) (rows ex_edges) \<and>
   in_grid ex_edges (0, 0) \<and> float_ge (cell ex_edges (0, 0)) 0.4 \<and>
   in_grid ex_edges (0, 2) \<and>
   cell (distance_from_edge ex_edges) (0, 0) = 0 \<and>
   cell (distance_from_edge ex_edges) (0, 2) \<le> 2"
proof -
  have wf: "wf_grid ex_edges" by (simp add: wf_grid_def ex_edges_def)
  have nan: "list_all (list_all (\<lambda>x. x \<noteq> NaN)) (rows ex_edges)" by (simp add: ex_edges_def)
  have p0: "in_grid ex_edges (0, 0)" by (simp add: in_grid_def ex_edges_def)
  have p2: "in_grid ex_edges (0, 2)" by (simp add: in_grid_def ex_edges_def)
  have b: "float_ge (cell ex_edges (0, 0)) 0.4" by (simp add: cell_def ex_edges_def)
  have ex: "\<exists>q. in_grid ex_edges q \<and> float_ge (cell ex_edges q) 0.4" using p0 b by blast
  have e: "euclidean (0, 2) (0, 0) = 2" by (simp add: euclidean_def)
  from distance_from_edge_nearest_boundary [OF wf nan ex p0] b
  have "cell (distance_from_edge ex_edges) (0, 0) = 0" by blast
  moreover from distance_from_edge_nearest_boundary [OF wf nan ex p2] p0 b e
  have "cell (distance_from_edge ex_edges) (0, 2) \<le> 2" by metis
  ultimately show ?thesis using wf nan p0 p2 b by simp
qed

end
